theory Spec2Isabelle
  imports Main "HOL-Library.Sublist"
begin

section \<open>Python values handled by the adapter\<close>

text \<open>
  A frame is the result of \<^verbatim>\<open>json.loads\<close>: \<^verbatim>\<open>None\<close>, a bool, an int, a str, a list
  or a dict with string keys. A dict is an association list in insertion order.
  Numbers with a fraction or an exponent (Python floats) are not represented, and
  a string is a list of bytes. \<open>Message\<close> is the object that
  \<^verbatim>\<open>Message.template("{}").format(x)\<close> builds; it is opaque here and is only
  stored into the payload.
\<close>

datatype json =
    JNull
  | JBool bool
  | JInt int
  | JStr string
  | JList "json list"
  | JObj "(string \<times> json) list"
  | Message json

type_synonym dict = "(string \<times> json) list"

text \<open>
  The exceptions of the modelled code. The two \<^verbatim>\<open>TokenError\<close> messages of the
  source are Chinese texts; \<open>invalid_token\<close> stands for the one raised on code
  40101 and \<open>token_verification_failed\<close> for the one raised on code 40102.
\<close>

datatype token_message = invalid_token | token_verification_failed

datatype error =
    ReconnectError
  | TokenError token_message
  | KeyError string
  | TypeError
  | AttributeError
  | IndexError
  | ValidationError
  | ValueError
  | NetworkError

text \<open>\<^verbatim>\<open>d.get(k)\<close>, \<^verbatim>\<open>d[k]\<close> and \<^verbatim>\<open>d[k] = v\<close> on a dict.\<close>

definition dict_get :: "dict \<Rightarrow> string \<Rightarrow> json" where
  "dict_get d k = (case map_of d k of None \<Rightarrow> JNull | Some v \<Rightarrow> v)"

definition dict_item :: "dict \<Rightarrow> string \<Rightarrow> error + json" where
  "dict_item d k = (case map_of d k of None \<Rightarrow> Inl (KeyError k) | Some v \<Rightarrow> Inr v)"

fun dict_set :: "dict \<Rightarrow> string \<Rightarrow> json \<Rightarrow> dict" where
  "dict_set [] k v = [(k, v)]"
| "dict_set ((k', v') # d) k v = (if k' = k then (k, v) # d else (k', v') # dict_set d k v)"

text \<open>
  The same three operations on an arbitrary value: \<^verbatim>\<open>x.get(k)\<close> raises
  \<^verbatim>\<open>AttributeError\<close> unless \<open>x\<close> is a dict, \<^verbatim>\<open>x[k]\<close> and \<^verbatim>\<open>x[k] = v\<close> with a
  string key raise \<^verbatim>\<open>TypeError\<close> unless \<open>x\<close> is a dict.
\<close>

definition attr_get :: "json \<Rightarrow> string \<Rightarrow> error + json" where
  "attr_get x k = (case x of JObj d \<Rightarrow> Inr (dict_get d k) | _ \<Rightarrow> Inl AttributeError)"

definition subscript :: "json \<Rightarrow> string \<Rightarrow> error + json" where
  "subscript x k = (case x of JObj d \<Rightarrow> dict_item d k | _ \<Rightarrow> Inl TypeError)"

definition subscript_set :: "json \<Rightarrow> string \<Rightarrow> json \<Rightarrow> error + json" where
  "subscript_set x k v = (case x of JObj d \<Rightarrow> Inr (JObj (dict_set d k v)) | _ \<Rightarrow> Inl TypeError)"

text \<open>
  Python's \<^verbatim>\<open>==\<close> against an int (a bool counts as 0 or 1), against a str, and
  against the identity hint, which is \<^verbatim>\<open>None\<close> or a str.
\<close>

fun eq_int :: "json \<Rightarrow> int \<Rightarrow> bool" where
  "eq_int (JInt n) c = (n = c)"
| "eq_int (JBool b) c = ((if b then 1 else 0) = c)"
| "eq_int _ c = False"

fun eq_str :: "json \<Rightarrow> string \<Rightarrow> bool" where
  "eq_str (JStr s) c = (s = c)"
| "eq_str _ c = False"

fun eq_hint :: "json \<Rightarrow> string option \<Rightarrow> bool" where
  "eq_hint x None = (x = JNull)"
| "eq_hint x (Some s) = eq_str x s"

fun of_hint :: "string option \<Rightarrow> json" where
  "of_hint None = JNull"
| "of_hint (Some s) = JStr s"

text \<open>Truth value of an object in \<^verbatim>\<open>if x\<close>.\<close>

fun truthy :: "json \<Rightarrow> bool" where
  "truthy JNull = False"
| "truthy (JBool b) = b"
| "truthy (JInt n) = (n \<noteq> 0)"
| "truthy (JStr s) = (s \<noteq> [])"
| "truthy (JList xs) = (xs \<noteq> [])"
| "truthy (JObj d) = (d \<noteq> [])"
| "truthy (Message x) = True"

text \<open>\<^verbatim>\<open>str.lower\<close> on ASCII letters; other bytes are kept.\<close>

definition lower_char :: "char \<Rightarrow> char" where
  "lower_char c =
     (case map_of (zip ''ABCDEFGHIJKLMNOPQRSTUVWXYZ'' ''abcdefghijklmnopqrstuvwxyz'') c of
        None \<Rightarrow> c
      | Some l \<Rightarrow> l)"

definition lower :: "string \<Rightarrow> string" where
  "lower s = map lower_char s"

definition attr_lower :: "json \<Rightarrow> error + json" where
  "attr_lower x = (case x of JStr s \<Rightarrow> Inr (JStr (lower s)) | _ \<Rightarrow> Inl AttributeError)"

text \<open>Decimal text of an int, as \<^verbatim>\<open>str(n)\<close> gives it.\<close>

fun digits :: "nat \<Rightarrow> string" where
  "digits n =
     (if n < 10 then [''0123456789'' ! n]
      else digits (n div 10) @ [''0123456789'' ! (n mod 10)])"

definition str_int :: "int \<Rightarrow> string" where
  "str_int n = (if n < 0 then CHR ''-'' # digits (nat (- n)) else digits (nat n))"

text \<open>\<^verbatim>\<open>s.split(c)\<close> with a one-character separator.\<close>

fun split :: "char \<Rightarrow> string \<Rightarrow> string list" where
  "split c [] = [[]]"
| "split c (x # xs) =
     (if x = c then [] # split c xs
      else (case split c xs of [] \<Rightarrow> [[x]] | w # ws \<Rightarrow> (x # w) # ws))"

section \<open>The event module and the sequence store\<close>

text \<open>
  Modelled from the spec: \<^verbatim>\<open>SignalTypes\<close> is declared in \<^verbatim>\<open>event.py\<close>, which is not
  among the sources. The codes are those of the wire protocol: 0 = EVENT,
  1 = HELLO, 2 = PING, 3 = PONG, 5 = RESUME, 6 = RECONNECT, 7 = RESUME_ACK.
\<close>

definition EVENT :: int where "EVENT = 0"
definition HELLO :: int where "HELLO = 1"
definition PING :: int where "PING = 2"
definition PONG :: int where "PONG = 3"
definition RESUME :: int where "RESUME = 5"
definition RECONNECT :: int where "RECONNECT = 6"
definition RESUME_ACK :: int where "RESUME_ACK = 7"

text \<open>
  What \<^verbatim>\<open>json_to_event\<close> uses of \<^verbatim>\<open>event.py\<close> and of its libraries, taken as
  parameters because the declarations are not among the sources:
  \<^item> \<open>EventTypes\<close>: the members of the enumeration \<^verbatim>\<open>EventTypes\<close> as (name, value),
    in the order in which iterating over the enumeration yields them;
  \<^item> \<open>EventTypes_sys\<close>: the value of \<^verbatim>\<open>EventTypes.sys\<close>;
  \<^item> \<open>parse_obj\<close>: \<^verbatim>\<open>model.parse_obj(data)\<close> of a registered model class, \<open>None\<close>
    when validation raises; \<open>Event_parse_obj\<close>, \<open>LifecycleMetaEvent_parse_obj\<close> and
    \<open>HeartbeatMetaEvent_parse_obj\<close> likewise for the three classes named in the
    source;
  \<^item> \<open>repr\<close>: the text Python gives a list, a dict or a \<^verbatim>\<open>Message\<close> inside an
    f-string.
  \<open>'m\<close> is the type of model classes and \<open>'e\<close> the type of event objects.
\<close>

record ('m, 'e) event_module =
  EventTypes :: "(string \<times> int) list"
  EventTypes_sys :: int
  parse_obj :: "'m \<Rightarrow> dict \<Rightarrow> 'e option"
  Event_parse_obj :: "dict \<Rightarrow> 'e option"
  LifecycleMetaEvent_parse_obj :: "dict \<Rightarrow> 'e option"
  HeartbeatMetaEvent_parse_obj :: "dict \<Rightarrow> 'e option"
  repr :: "json \<Rightarrow> string"

text \<open>\<^verbatim>\<open>f"{x}"\<close>: the text of a value inside an f-string.\<close>

definition format :: "('m, 'e) event_module \<Rightarrow> json \<Rightarrow> string" where
  "format E x =
     (case x of
        JNull \<Rightarrow> ''None''
      | JBool b \<Rightarrow> (if b then ''True'' else ''False'')
      | JInt n \<Rightarrow> str_int n
      | JStr s \<Rightarrow> s
      | _ \<Rightarrow> repr E x)"

text \<open>
  Modelled from the spec: \<^verbatim>\<open>ResultStore\<close> is declared in \<^verbatim>\<open>utils.py\<close>, which is not
  among the sources. \<open>set_sn\<close> records the latest sequence number seen for an
  identity and \<open>get_sn\<close> returns the last recorded value, or 0 if none is
  recorded. The key is the identity hint, which may be \<^verbatim>\<open>None\<close>.
\<close>

type_synonym sn_map = "string option \<Rightarrow> json option"

definition set_sn :: "sn_map \<Rightarrow> string option \<Rightarrow> json \<Rightarrow> sn_map" where
  "set_sn sn self_id v = sn(self_id \<mapsto> v)"

definition get_sn :: "sn_map \<Rightarrow> string option \<Rightarrow> json" where
  "get_sn sn self_id = (case sn self_id of None \<Rightarrow> JInt 0 | Some v \<Rightarrow> v)"

section \<open>The event model registry\<close>

text \<open>
  \<^verbatim>\<open>event_models\<close> is a \<^verbatim>\<open>StringTrie(separator=".")\<close>: a key is split at the dots
  and the trie holds at most one value per path. \<^verbatim>\<open>prefixes(key)\<close> yields the
  values stored at the prefixes of the key's path, the shortest path first.
\<close>

type_synonym 'm trie = "string list \<Rightarrow> 'm option"

definition path_from_key :: "string \<Rightarrow> string list" where
  "path_from_key key = split CHR ''.'' key"

definition trie_set :: "'m trie \<Rightarrow> string \<Rightarrow> 'm \<Rightarrow> 'm trie" where
  "trie_set t key m = t(path_from_key key \<mapsto> m)"

definition trie_prefixes :: "'m trie \<Rightarrow> string \<Rightarrow> 'm list" where
  "trie_prefixes t key = List.map_filter t (prefixes (path_from_key key))"

text \<open>
  The class body registers every event class of \<^verbatim>\<open>event.py\<close> under its
  \<^verbatim>\<open>__event__\<close> name, in the order of \<^verbatim>\<open>dir(event)\<close>; \<open>classes\<close> lists them as
  (\<^verbatim>\<open>__event__\<close>, class).
\<close>

definition init_event_models :: "(string \<times> 'm) list \<Rightarrow> 'm trie" where
  "init_event_models classes =
     fold (\<lambda>(ev, model) t. trie_set t (''.'' @ ev) model) classes Map.empty"

definition add_custom_model :: "'m trie \<Rightarrow> string \<Rightarrow> 'm \<Rightarrow> error + 'm trie" where
  "add_custom_model t ev model =
     (if ev = [] then Inl ValueError else Inr (trie_set t (''.'' @ ev) model))"

definition get_event_model :: "'m trie \<Rightarrow> string \<Rightarrow> 'm list" where
  "get_event_model t event_name = rev (trie_prefixes t (''.'' @ event_name))"

text \<open>A model is registered at a dotted path when the trie holds it there.\<close>

definition registered :: "'m trie \<Rightarrow> string \<Rightarrow> 'm \<Rightarrow> bool" where
  "registered t p m = (t (path_from_key (''.'' @ p)) = Some m)"

text \<open>
  One dotted path is a prefix of another when its components are the leading
  components of the other.
\<close>

definition path_prefix :: "string \<Rightarrow> string \<Rightarrow> bool" where
  "path_prefix p q = prefix (split CHR ''.'' p) (split CHR ''.'' q)"

text \<open>
  Every key of the registry is written as a dot followed by an event name; the
  class body and \<open>add_custom_model\<close> store under such keys only.
\<close>

definition keys_dotted :: "'m trie \<Rightarrow> bool" where
  "keys_dotted t = (\<forall>pth. t pth \<noteq> None \<longrightarrow> (\<exists>ev. pth = path_from_key (''.'' @ ev)))"

section \<open>Decoding a frame: \<^verbatim>\<open>json_to_event\<close>\<close>

text \<open>Sequencing of steps that may raise: the first exception ends the block.\<close>

definition and_then :: "error + 'a \<Rightarrow> ('a \<Rightarrow> error + 'b) \<Rightarrow> error + 'b" where
  "and_then x f = (case x of Inl e \<Rightarrow> Inl e | Inr a \<Rightarrow> f a)"

definition first_elem :: "'a list \<Rightarrow> error + 'a" where
  "first_elem xs = (case xs of [] \<Rightarrow> Inl IndexError | x # _ \<Rightarrow> Inr x)"

text \<open>
  The branch of a system notice (source lines 352 to 355). \<open>extra\<close> is the value
  of \<^verbatim>\<open>data.get("extra")\<close> read at line 344.
\<close>

definition notice_fields :: "json \<Rightarrow> dict \<Rightarrow> error + dict" where
  "notice_fields extra data =
     (let data1 = dict_set data ''post_type'' (JStr ''notice'') in
      and_then (attr_get extra ''type'') (\<lambda>notice_type.
      let data2 = dict_set data1 ''notice_type'' notice_type in
      and_then (dict_item data2 ''content'') (\<lambda>content.
      Inr (dict_set data2 ''message'' (Message content)))))"

text \<open>
  The list comprehension of line 360: the lowercased names of the members of
  \<^verbatim>\<open>EventTypes\<close> whose value equals \<^verbatim>\<open>extra.get('type')\<close>. The condition is
  evaluated once per member, so \<^verbatim>\<open>extra.get\<close> is not called for an enumeration
  without members.
\<close>

definition sub_type_names :: "('m, 'e) event_module \<Rightarrow> json \<Rightarrow> error + string list" where
  "sub_type_names E extra =
     (if EventTypes E = [] then Inr []
      else and_then (attr_get extra ''type'') (\<lambda>t.
           Inr (map (\<lambda>(name, v). lower name) (filter (\<lambda>(name, v). eq_int t v) (EventTypes E)))))"

text \<open>
  The branch of a message (source lines 359 to 364). Line 363 writes
  \<^verbatim>\<open>content\<close> into the dict stored under \<^verbatim>\<open>extra\<close>, in place, so the entry
  \<^verbatim>\<open>extra\<close> of the payload and the new entry \<^verbatim>\<open>event\<close> both hold the enriched
  dict.
\<close>

definition message_fields :: "('m, 'e) event_module \<Rightarrow> json \<Rightarrow> dict \<Rightarrow> error + dict" where
  "message_fields E extra data =
     (let data1 = dict_set data ''post_type'' (JStr ''message'') in
      and_then (sub_type_names E extra) (\<lambda>names.
      and_then (first_elem names) (\<lambda>sub_type.
      let data2 = dict_set data1 ''sub_type'' (JStr sub_type) in
      and_then (attr_lower (dict_get data2 ''channel_type'')) (\<lambda>message_type.
      let data3 = dict_set data2 ''message_type'' message_type;
          data4 = dict_set data3 ''message_type''
                    (if eq_str message_type ''person'' then JStr ''private'' else message_type) in
      and_then (dict_item data4 ''extra'') (\<lambda>ex.
      and_then (subscript_set ex ''content'' (dict_get data4 ''content'')) (\<lambda>ex'.
      let data5 = dict_set data4 ''extra'' ex' in
      Inr (dict_set data5 ''event'' ex')))))))"

text \<open>
  The assignments that every payload gets (source lines 346 to 349). \<^verbatim>\<open>data\<close> is
  the dict \<^verbatim>\<open>json_data['d']\<close> itself, so every assignment is also visible through
  \<^verbatim>\<open>json_data\<close>.
\<close>

definition common_fields :: "dict \<Rightarrow> string option \<Rightarrow> dict" where
  "common_fields d self_id =
     (let data1 = dict_set d ''self_id'' (of_hint self_id);
          data2 = dict_set data1 ''group_id'' (dict_get data1 ''target_id'');
          data3 = dict_set data2 ''time'' (dict_get data2 ''msg_timestamp'') in
      dict_set data3 ''user_id''
        (if \<not> eq_str (dict_get data3 ''author_id'') ''1''
         then dict_get data3 ''author_id'' else JStr ''SYSTEM''))"

text \<open>Normalisation of the payload (source lines 343 to 366).\<close>

definition normalize :: "('m, 'e) event_module \<Rightarrow> dict \<Rightarrow> string option \<Rightarrow> error + dict" where
  "normalize E d self_id =
     (let extra = dict_get d ''extra'';
          data4 = common_fields d self_id in
      and_then (dict_item data4 ''type'') (\<lambda>t.
      and_then (if eq_int t (EventTypes_sys E) then notice_fields extra data4
                else message_fields E extra data4) (\<lambda>data5.
      Inr (dict_set data5 ''message_id'' (dict_get data5 ''msg_id'')))))"

text \<open>The dotted event name (source lines 367 to 373).\<close>

definition event_name :: "('m, 'e) event_module \<Rightarrow> dict \<Rightarrow> error + string" where
  "event_name E data =
     and_then (dict_item data ''post_type'') (\<lambda>pt.
     case pt of
       JStr post_type \<Rightarrow>
         (let detail_type = dict_get data (post_type @ ''_type'');
              detail = (if truthy detail_type then ''.'' @ format E detail_type else []);
              sub_type = dict_get data ''sub_type'';
              sub = (if truthy sub_type then ''.'' @ format E sub_type else []) in
          Inr (post_type @ detail @ sub))
     | _ \<Rightarrow> Inl TypeError)"

text \<open>
  The loop over the candidate models (source lines 374 to 379): the first model
  that validates the payload gives the event; \<open>None\<close> when the loop ends without
  a \<^verbatim>\<open>break\<close>.
\<close>

fun try_models :: "('m \<Rightarrow> dict \<Rightarrow> 'e option) \<Rightarrow> 'm list \<Rightarrow> dict \<Rightarrow> 'e option" where
  "try_models p [] data = None"
| "try_models p (model # models) data =
     (case p model data of Some event \<Rightarrow> Some event | None \<Rightarrow> try_models p models data)"

text \<open>
  The envelope that \<^verbatim>\<open>Event.parse_obj(json_data)\<close> receives at line 381:
  \<^verbatim>\<open>json_data\<close> whose entry \<^verbatim>\<open>d\<close> is the normalised payload.
\<close>

definition fallback_envelope :: "dict \<Rightarrow> dict \<Rightarrow> dict" where
  "fallback_envelope json_data data = dict_set json_data ''d'' (JObj data)"

text \<open>The body of the \<^verbatim>\<open>try\<close> block (source lines 343 to 383).\<close>

definition parse_event ::
  "('m, 'e) event_module \<Rightarrow> 'm trie \<Rightarrow> dict \<Rightarrow> dict \<Rightarrow> string option \<Rightarrow> error + 'e" where
  "parse_event E t json_data d self_id =
     and_then (normalize E d self_id) (\<lambda>data.
     and_then (event_name E data) (\<lambda>name.
     case try_models (parse_obj E) (get_event_model t name) data of
       Some event \<Rightarrow> Inr event
     | None \<Rightarrow>
         (case Event_parse_obj E (fallback_envelope json_data data) of
            None \<Rightarrow> Inl ValidationError
          | Some event \<Rightarrow> Inr event)))"

text \<open>
  What the signal dispatch (source lines 308 to 336) leaves to do: \<open>Return\<close> is
  a \<^verbatim>\<open>return\<close> or a \<^verbatim>\<open>raise\<close>, \<open>Continue\<close> goes on to line 338.
\<close>

datatype 'e flow = Return "error + 'e option" | Continue

definition on_hello :: "('m, 'e) event_module \<Rightarrow> dict \<Rightarrow> 'e flow" where
  "on_hello E json_data =
     (case and_then (dict_item json_data ''d'') (\<lambda>d. subscript d ''code'') of
        Inl e \<Rightarrow> Return (Inl e)
      | Inr code \<Rightarrow>
          if eq_int code 0 then
            (case dict_item json_data ''d'' of
               Inr (JObj d) \<Rightarrow>
                 (let data1 = dict_set d ''post_type'' (JStr ''meta_event'');
                      data2 = dict_set data1 ''sub_type'' (JStr ''connect'');
                      data3 = dict_set data2 ''meta_event_type'' (JStr ''lifecycle'') in
                  case LifecycleMetaEvent_parse_obj E data3 of
                    None \<Rightarrow> Return (Inl ValidationError)
                  | Some event \<Rightarrow> Return (Inr (Some event)))
             | Inr _ \<Rightarrow> Return (Inl TypeError)
             | Inl e \<Rightarrow> Return (Inl e))
          else if eq_int code 40103 then Return (Inl ReconnectError)
          else if eq_int code 40101 then Return (Inl (TokenError invalid_token))
          else if eq_int code 40102 then Return (Inl (TokenError token_verification_failed))
          else Continue)"

definition on_signal ::
  "('m, 'e) event_module \<Rightarrow> sn_map \<Rightarrow> dict \<Rightarrow> string option \<Rightarrow> json \<Rightarrow> sn_map \<times> 'e flow" where
  "on_signal E sn json_data self_id signal =
     (if eq_int signal HELLO then (sn, on_hello E json_data)
      else if eq_int signal PONG then
        (case HeartbeatMetaEvent_parse_obj E
                [(''post_type'', JStr ''meta_event''), (''meta_event_type'', JStr ''heartbeat'')] of
           None \<Rightarrow> (sn, Return (Inl ValidationError))
         | Some event \<Rightarrow> (sn, Return (Inr (Some event))))
      else if eq_int signal EVENT then
        (case dict_item json_data ''sn'' of
           Inl e \<Rightarrow> (sn, Return (Inl e))
         | Inr v \<Rightarrow> (set_sn sn self_id v, Continue))
      else if eq_int signal RECONNECT then (sn, Return (Inl ReconnectError))
      else if eq_int signal RESUME_ACK then (sn, Return (Inr None))
      else (sn, Continue))"

text \<open>
  The check for the bot's own messages and the guarded decoding (source lines
  338 to 390). An exception inside the \<^verbatim>\<open>try\<close> block is logged and the function
  returns \<^verbatim>\<open>None\<close>.
\<close>

definition decode_payload ::
  "('m, 'e) event_module \<Rightarrow> 'm trie \<Rightarrow> dict \<Rightarrow> string option \<Rightarrow> error + 'e option" where
  "decode_payload E t json_data self_id =
     and_then (dict_item json_data ''d'') (\<lambda>dv.
     and_then (attr_get dv ''author_id'') (\<lambda>author_id.
     if eq_hint author_id self_id then Inr None
     else (case dv of
             JObj d \<Rightarrow>
               (case parse_event E t json_data d self_id of
                  Inl e \<Rightarrow> Inr None
                | Inr event \<Rightarrow> Inr (Some event))
           | _ \<Rightarrow> Inr None)))"

text \<open>
  \<^verbatim>\<open>json_to_event(json_data, self_id)\<close> with the registry \<open>t\<close> and the sequence
  store \<open>sn\<close>: the new store, and an exception (\<open>Inl\<close>), \<^verbatim>\<open>None\<close> or an event.
\<close>

definition json_to_event ::
  "('m, 'e) event_module \<Rightarrow> 'm trie \<Rightarrow> sn_map \<Rightarrow> json \<Rightarrow> string option
     \<Rightarrow> sn_map \<times> (error + 'e option)" where
  "json_to_event E t sn json_data self_id =
     (case json_data of
        JObj jd \<Rightarrow>
          (case dict_item jd ''s'' of
             Inl e \<Rightarrow> (sn, Inl e)
           | Inr signal \<Rightarrow>
               (case on_signal E sn jd self_id signal of
                  (sn', Return r) \<Rightarrow> (sn', r)
                | (sn', Continue) \<Rightarrow> (sn', decode_payload E t jd self_id)))
      | _ \<Rightarrow> (sn, Inr None))"

section \<open>The connection: teardown and heartbeat\<close>

text \<open>
  The registry \<^verbatim>\<open>self.connections\<close> maps a bound identity to its socket; of a
  socket only the flag \<^verbatim>\<open>closed\<close> is read.
\<close>

datatype websocket = WebSocket (closed: bool)

text \<open>
  The state that the \<^verbatim>\<open>finally\<close> block of \<^verbatim>\<open>_forward_ws\<close> (source lines 261
  to 274) works on: the registry, the bots known to the driver, the sequence
  store, and the local variables \<^verbatim>\<open>bot\<close> (its \<^verbatim>\<open>self_id\<close>, or \<open>None\<close>) and
  \<^verbatim>\<open>url\<close>.
\<close>

record 'u session =
  connections :: "string \<Rightarrow> websocket option"
  bots :: "string set"
  sn_store :: sn_map
  bot :: "string option"
  url :: 'u

text \<open>
  The \<^verbatim>\<open>finally\<close> block. \<open>gateway\<close> is the outcome of
  \<^verbatim>\<open>await self._get_gateway(token=bot_token)\<close>: a new URL, or the exception of the
  request. The outcome of \<^verbatim>\<open>ws.close()\<close> is ignored by the source. The result is
  the state after the block and the exception that leaves it, if any.
\<close>

definition teardown :: "error + 'u \<Rightarrow> 'u session \<Rightarrow> 'u session \<times> error option" where
  "teardown gateway s =
     (case bot s of
        None \<Rightarrow> (s, None)
      | Some self_id \<Rightarrow>
          (case gateway of
             Inl e \<Rightarrow> (s, Some e)
           | Inr url' \<Rightarrow>
               (s\<lparr>url := url',
                  sn_store := set_sn (sn_store s) (Some self_id) (JInt 0),
                  connections := (connections s)(self_id := None),
                  bots := bots s - {self_id},
                  bot := None\<rparr>, None)))"

text \<open>
  \<^verbatim>\<open>start_heartbeat\<close> (source lines 285 to 297). The task shares the registry
  and the sequence store with the receive loops and is suspended at
  \<^verbatim>\<open>send\<close> and at \<^verbatim>\<open>sleep\<close>, so each turn of its loop sees them as the other
  tasks left them: a \<open>snapshot\<close> is what one turn sees, with the outcome of its
  \<^verbatim>\<open>send\<close>. The loop runs over the snapshots of its successive turns and gives
  the frames passed to \<^verbatim>\<open>send\<close> and how it ended; \<open>Running\<close> when the turns
  given are used up with the loop still going.
\<close>

record snapshot =
  registry :: "string \<Rightarrow> websocket option"
  store :: sn_map
  send_raises :: "error option"

datatype heartbeat_end = Exited | Raised error | Running

definition ping :: "sn_map \<Rightarrow> string \<Rightarrow> json" where
  "ping sn self_id = JObj [(''s'', JInt 2), (''sn'', get_sn sn (Some self_id))]"

fun start_heartbeat :: "string \<Rightarrow> snapshot list \<Rightarrow> json list \<times> heartbeat_end" where
  "start_heartbeat self_id [] = ([], Running)"
| "start_heartbeat self_id (w # ws) =
     (case registry w self_id of
        None \<Rightarrow> ([], Exited)
      | Some ws' \<Rightarrow>
          if closed ws' then ([], Exited)
          else (case send_raises w of
                  Some e \<Rightarrow> ([ping (store w) self_id], Raised e)
                | None \<Rightarrow>
                    (case start_heartbeat self_id ws of
                       (frames, end) \<Rightarrow> (ping (store w) self_id # frames, end))))"

text \<open>The registry reports an open socket for the identity.\<close>

definition reports_open :: "snapshot \<Rightarrow> string \<Rightarrow> bool" where
  "reports_open w self_id =
     (case registry w self_id of None \<Rightarrow> False | Some ws' \<Rightarrow> \<not> closed ws')"

section \<open>An event module for concrete frames\<close>

text \<open>
  Modelled from the spec: \<^verbatim>\<open>event.py\<close> is not among the sources, and the spec
  leaves the field schemas of its classes out of scope. For concrete frames the
  event classes are stood in for by their names: a class accepts a payload when
  the fields it requires are present and not \<^verbatim>\<open>None\<close>, and the event object is
  the class name with the payload it was built from. The message types are the
  platform's (1 text, 2 image, 3 video, 4 file, 8 audio, 9 kmarkdown, 10 card,
  255 system); the spec's example has type 9 and subtype 1 in a message.
\<close>

type_synonym demo_event = "string \<times> dict"

definition requiring :: "string list \<Rightarrow> string \<Rightarrow> dict \<Rightarrow> demo_event option" where
  "requiring keys cls d =
     (if list_all (\<lambda>k. dict_get d k \<noteq> JNull) keys then Some (cls, d) else None)"

definition demo_fields :: "string \<Rightarrow> string list" where
  "demo_fields cls =
     (if cls = ''MessageEvent'' then [''message_type'', ''user_id'', ''message_id'']
      else if cls = ''ChannelMessageEvent'' then [''message_type'', ''group_id'', ''nonce'']
      else if cls = ''NoticeEvent'' then [''notice_type'']
      else [])"

definition demo_module :: "(string, demo_event) event_module" where
  "demo_module =
     \<lparr>EventTypes = [(''text'', 1), (''image'', 2), (''video'', 3), (''file'', 4), (''audio'', 8),
                    (''kmarkdown'', 9), (''card'', 10), (''sys'', 255)],
      EventTypes_sys = 255,
      parse_obj = (\<lambda>cls. requiring (demo_fields cls) cls),
      Event_parse_obj = requiring [] ''Event'',
      LifecycleMetaEvent_parse_obj =
        requiring [''post_type'', ''meta_event_type'', ''sub_type''] ''LifecycleMetaEvent'',
      HeartbeatMetaEvent_parse_obj =
        requiring [''post_type'', ''meta_event_type''] ''HeartbeatMetaEvent'',
      repr = (\<lambda>x. ''?'')\<rparr>"

definition demo_models :: "string trie" where
  "demo_models =
     init_event_models
       [(''message'', ''MessageEvent''),
        (''message.group'', ''ChannelMessageEvent''),
        (''notice'', ''NoticeEvent'')]"

definition notice_only_models :: "string trie" where
  "notice_only_models = init_event_models [(''notice'', ''NoticeEvent'')]"

text \<open>
  Payloads of concrete frames: a text message in a channel, with
  \<^verbatim>\<open>channel_type\<close> at the top level of the payload as \<open>json_to_event\<close> reads it,
  and the payload of the spec's example, where \<^verbatim>\<open>channel_type\<close> is inside
  \<^verbatim>\<open>extra\<close>.
\<close>

definition group_text_payload :: dict where
  "group_text_payload =
     [(''type'', JInt 9), (''channel_type'', JStr ''GROUP''), (''target_id'', JStr ''g1''),
      (''msg_timestamp'', JInt 1000), (''author_id'', JStr ''2''),
      (''extra'', JObj [(''type'', JInt 1)]), (''content'', JStr ''hi''),
      (''msg_id'', JStr ''m1'')]"

definition spec_example_payload :: dict where
  "spec_example_payload =
     [(''type'', JInt 9), (''target_id'', JStr ''g1''), (''msg_timestamp'', JInt 1000),
      (''author_id'', JStr ''2''),
      (''extra'', JObj [(''type'', JInt 1), (''channel_type'', JStr ''GROUP'')]),
      (''content'', JStr ''hi''), (''msg_id'', JStr ''m1'')]"

text \<open>
  A text message in a private chat written by the author \<^verbatim>\<open>"1"\<close>, a system
  notice in a private chat, and a text message in a channel whose author's
  identity is the text \<^verbatim>\<open>"SYSTEM"\<close>.
\<close>

definition person_text_payload :: dict where
  "person_text_payload =
     [(''type'', JInt 9), (''channel_type'', JStr ''PERSON''), (''target_id'', JStr ''u1''),
      (''msg_timestamp'', JInt 1000), (''author_id'', JStr ''1''),
      (''extra'', JObj [(''type'', JInt 1)]), (''content'', JStr ''hi''),
      (''msg_id'', JStr ''m2'')]"

definition person_notice_payload :: dict where
  "person_notice_payload =
     [(''type'', JInt 255), (''channel_type'', JStr ''PERSON''), (''target_id'', JStr ''u1''),
      (''msg_timestamp'', JInt 1000), (''author_id'', JStr ''1''),
      (''extra'', JObj [(''type'', JStr ''guild_member_online'')]), (''content'', JStr ''x''),
      (''msg_id'', JStr ''m3'')]"

definition system_named_payload :: dict where
  "system_named_payload =
     [(''type'', JInt 9), (''channel_type'', JStr ''GROUP''), (''target_id'', JStr ''g1''),
      (''msg_timestamp'', JInt 1000), (''author_id'', JStr ''SYSTEM''),
      (''extra'', JObj [(''type'', JInt 1)]), (''content'', JStr ''hi''),
      (''msg_id'', JStr ''m4'')]"

text \<open>An EVENT frame with the given sequence number and payload.\<close>

definition event_frame :: "int \<Rightarrow> dict \<Rightarrow> dict" where
  "event_frame n d = [(''s'', JInt EVENT), (''sn'', JInt n), (''d'', JObj d)]"

text \<open>
  What a turn of the heartbeat loop of the bot \<^verbatim>\<open>"42"\<close> sees: its socket in the
  registry, closed or not, or no socket, with the sequence number stored for
  it; and a session of that bot at the start of a teardown.
\<close>

definition beat :: "bool \<Rightarrow> int \<Rightarrow> snapshot" where
  "beat is_closed n =
     \<lparr>registry = [''42'' \<mapsto> WebSocket is_closed], store = [Some ''42'' \<mapsto> JInt n],
      send_raises = None\<rparr>"

definition unbound_beat :: "int \<Rightarrow> snapshot" where
  "unbound_beat n =
     \<lparr>registry = Map.empty, store = [Some ''42'' \<mapsto> JInt n], send_raises = None\<rparr>"

definition bound_session :: "string session" where
  "bound_session =
     \<lparr>connections = [''42'' \<mapsto> WebSocket True], bots = {''42''},
      sn_store = [Some ''42'' \<mapsto> JInt 42], bot = Some ''42'', url = ''ws://old''\<rparr>"

section \<open>Properties\<close>

lemma map_of_dict_set: "map_of (dict_set d k v) = (map_of d)(k \<mapsto> v)"
  by (induction d) auto

lemma dict_get_set: "dict_get (dict_set d k v) k' = (if k' = k then v else dict_get d k')"
  by (simp add: dict_get_def map_of_dict_set)

lemma eq_int_unique: "eq_int x a \<Longrightarrow> eq_int x b \<Longrightarrow> a = b"
  by (cases x) (auto split: if_splits)

lemmas signal_defs = EVENT_def HELLO_def PING_def PONG_def RESUME_def RECONNECT_def RESUME_ACK_def

lemma on_signal_event:
  "eq_int signal EVENT \<Longrightarrow>
   on_signal E sn jd self_id signal =
     (case dict_item jd ''sn'' of
        Inl e \<Rightarrow> (sn, Return (Inl e))
      | Inr v \<Rightarrow> (set_sn sn self_id v, Continue))"
  using eq_int_unique [of signal EVENT HELLO] eq_int_unique [of signal EVENT PONG]
  by (auto simp: on_signal_def signal_defs)

lemma on_signal_resume_ack:
  "eq_int signal RESUME_ACK \<Longrightarrow> on_signal E sn jd self_id signal = (sn, Return (Inr None))"
  using eq_int_unique [of signal RESUME_ACK HELLO] eq_int_unique [of signal RESUME_ACK PONG]
    eq_int_unique [of signal RESUME_ACK EVENT] eq_int_unique [of signal RESUME_ACK RECONNECT]
  by (auto simp: on_signal_def signal_defs)

lemma on_signal_other:
  "\<not> eq_int signal HELLO \<Longrightarrow> \<not> eq_int signal PONG \<Longrightarrow> \<not> eq_int signal EVENT \<Longrightarrow>
   \<not> eq_int signal RECONNECT \<Longrightarrow> \<not> eq_int signal RESUME_ACK \<Longrightarrow>
   on_signal E sn jd self_id signal = (sn, Continue)"
  by (simp add: on_signal_def)

lemma json_to_event_continue:
  "dict_item jd ''s'' = Inr signal \<Longrightarrow> on_signal E sn jd self_id signal = (sn', Continue) \<Longrightarrow>
   json_to_event E t sn (JObj jd) self_id = (sn', decode_payload E t jd self_id)"
  by (simp add: json_to_event_def)

lemma json_to_event_return:
  "dict_item jd ''s'' = Inr signal \<Longrightarrow> on_signal E sn jd self_id signal = (sn', Return r) \<Longrightarrow>
   json_to_event E t sn (JObj jd) self_id = (sn', r)"
  by (simp add: json_to_event_def)

lemma decode_payload_self:
  "dict_item jd ''d'' = Inr (JObj d) \<Longrightarrow> eq_hint (dict_get d ''author_id'') self_id \<Longrightarrow>
   decode_payload E t jd self_id = Inr None"
  by (simp add: decode_payload_def and_then_def attr_get_def)

lemma decode_payload_other:
  "dict_item jd ''d'' = Inr (JObj d) \<Longrightarrow> \<not> eq_hint (dict_get d ''author_id'') self_id \<Longrightarrow>
   decode_payload E t jd self_id =
     Inr (case parse_event E t jd d self_id of Inl e \<Rightarrow> None | Inr event \<Rightarrow> Some event)"
  by (simp add: decode_payload_def and_then_def attr_get_def split: sum.splits)

lemma eq_str_iff: "eq_str x s \<longleftrightarrow> x = JStr s"
  by (cases x) auto

lemma and_then_Inr:
  "and_then x f = Inr y \<longleftrightarrow> (\<exists>a. x = Inr a \<and> f a = Inr y)"
  by (cases x) (auto simp: and_then_def)

lemma attr_lower_Inr: "attr_lower x = Inr y \<longleftrightarrow> (\<exists>s. x = JStr s \<and> y = JStr (lower s))"
  by (cases x) (auto simp: attr_lower_def)

lemma subscript_set_Inr:
  "subscript_set x k v = Inr y \<longleftrightarrow> (\<exists>d. x = JObj d \<and> y = JObj (dict_set d k v))"
  by (cases x) (auto simp: subscript_set_def)

lemma notice_fields_Inr:
  assumes "notice_fields extra data = Inr data'"
  obtains notice_type content where
    "data' = dict_set (dict_set (dict_set data ''post_type'' (JStr ''notice''))
               ''notice_type'' notice_type) ''message'' (Message content)"
  using assms unfolding notice_fields_def Let_def and_then_Inr by blast

lemma message_fields_Inr:
  assumes "message_fields E extra data = Inr data'"
  obtains sub_type s ex' where
    "dict_get data ''channel_type'' = JStr s"
    "data' = dict_set (dict_set (dict_set (dict_set (dict_set (dict_set data
               ''post_type'' (JStr ''message''))
               ''sub_type'' (JStr sub_type))
               ''message_type'' (JStr (lower s)))
               ''message_type'' (if lower s = ''person'' then JStr ''private'' else JStr (lower s)))
               ''extra'' ex')
               ''event'' ex'"
proof -
  from assms obtain sub_type message_type ex' where
    mt: "attr_lower (dict_get (dict_set (dict_set data ''post_type'' (JStr ''message''))
           ''sub_type'' (JStr sub_type)) ''channel_type'') = Inr message_type"
    and res: "data' = dict_set (dict_set (dict_set (dict_set (dict_set (dict_set data
               ''post_type'' (JStr ''message''))
               ''sub_type'' (JStr sub_type))
               ''message_type'' message_type)
               ''message_type'' (if eq_str message_type ''person'' then JStr ''private'' else message_type))
               ''extra'' ex')
               ''event'' ex'"
    unfolding message_fields_def Let_def and_then_Inr by blast
  from mt obtain s where s: "dict_get data ''channel_type'' = JStr s" "message_type = JStr (lower s)"
    unfolding attr_lower_Inr by (auto simp: dict_get_set)
  show ?thesis
    using that [of s sub_type ex'] s res by simp
qed


lemma lower_PERSON: "lower ''PERSON'' = ''person''"
  by (simp add: lower_def lower_char_def)

lemma common_fields_get:
  "dict_get (common_fields d h) ''self_id'' = of_hint h"
  "dict_get (common_fields d h) ''user_id'' =
     (if dict_get d ''author_id'' = JStr ''1'' then JStr ''SYSTEM'' else dict_get d ''author_id'')"
  "dict_get (common_fields d h) ''msg_id'' = dict_get d ''msg_id''"
  "dict_get (common_fields d h) ''channel_type'' = dict_get d ''channel_type''"
  "map_of (common_fields d h) ''message_type'' = map_of d ''message_type''"
  by (simp_all add: common_fields_def Let_def dict_get_set map_of_dict_set eq_str_iff)

lemma normalize_Inr:
  assumes "normalize E d h = Inr data"
  obtains data5 where
    "notice_fields (dict_get d ''extra'') (common_fields d h) = Inr data5 \<or>
     message_fields E (dict_get d ''extra'') (common_fields d h) = Inr data5"
    "data = dict_set data5 ''message_id'' (dict_get data5 ''msg_id'')"
  using assms unfolding normalize_def Let_def and_then_Inr
  by (auto split: if_splits)

lemma normalize_get:
  assumes "normalize E d h = Inr data"
  shows "dict_get data ''self_id'' = of_hint h"
    and "dict_get data ''user_id'' =
           (if dict_get d ''author_id'' = JStr ''1'' then JStr ''SYSTEM''
            else dict_get d ''author_id'')"
    and "dict_get data ''message_id'' = dict_get d ''msg_id''"
    and "dict_get data ''post_type'' = JStr ''message'' \<or> dict_get data ''post_type'' = JStr ''notice''"
proof -
  from assms obtain data5 where
    br: "notice_fields (dict_get d ''extra'') (common_fields d h) = Inr data5 \<or>
         message_fields E (dict_get d ''extra'') (common_fields d h) = Inr data5"
    and fin: "data = dict_set data5 ''message_id'' (dict_get data5 ''msg_id'')"
    by (rule normalize_Inr)
  from br have d5: "dict_get data5 ''self_id'' = dict_get (common_fields d h) ''self_id''
      \<and> dict_get data5 ''user_id'' = dict_get (common_fields d h) ''user_id''
      \<and> dict_get data5 ''msg_id'' = dict_get (common_fields d h) ''msg_id''
      \<and> (dict_get data5 ''post_type'' = JStr ''message'' \<or> dict_get data5 ''post_type'' = JStr ''notice'')"
  proof
    assume "notice_fields (dict_get d ''extra'') (common_fields d h) = Inr data5"
    then show ?thesis
      by (elim notice_fields_Inr) (simp add: dict_get_set)
  next
    assume "message_fields E (dict_get d ''extra'') (common_fields d h) = Inr data5"
    then show ?thesis
      by (elim message_fields_Inr) (simp add: dict_get_set)
  qed
  show "dict_get data ''self_id'' = of_hint h"
    using d5 fin by (simp add: dict_get_set common_fields_get)
  show "dict_get data ''user_id'' =
           (if dict_get d ''author_id'' = JStr ''1'' then JStr ''SYSTEM''
            else dict_get d ''author_id'')"
    using d5 fin by (simp add: dict_get_set common_fields_get)
  show "dict_get data ''message_id'' = dict_get d ''msg_id''"
    using d5 fin by (simp add: dict_get_set common_fields_get)
  show "dict_get data ''post_type'' = JStr ''message'' \<or> dict_get data ''post_type'' = JStr ''notice''"
    using d5 fin by (simp add: dict_get_set)
qed

lemma normalize_message:
  assumes "normalize E d h = Inr data" and "dict_get data ''post_type'' = JStr ''message''"
  shows "\<exists>s. dict_get d ''channel_type'' = JStr s
           \<and> dict_get data ''message_type'' =
               JStr (if lower s = ''person'' then ''private'' else lower s)"
proof -
  from assms(1) obtain data5 where
    br: "notice_fields (dict_get d ''extra'') (common_fields d h) = Inr data5 \<or>
         message_fields E (dict_get d ''extra'') (common_fields d h) = Inr data5"
    and fin: "data = dict_set data5 ''message_id'' (dict_get data5 ''msg_id'')"
    by (rule normalize_Inr)
  have "\<not> notice_fields (dict_get d ''extra'') (common_fields d h) = Inr data5"
  proof
    assume "notice_fields (dict_get d ''extra'') (common_fields d h) = Inr data5"
    then have "dict_get data5 ''post_type'' = JStr ''notice''"
      by (elim notice_fields_Inr) (simp add: dict_get_set)
    with assms(2) fin show False
      by (simp add: dict_get_set)
  qed
  with br have "message_fields E (dict_get d ''extra'') (common_fields d h) = Inr data5"
    by simp
  then show ?thesis
    using fin by (elim message_fields_Inr) (auto simp: dict_get_set common_fields_get)
qed

lemma normalize_notice:
  assumes "normalize E d h = Inr data" and "dict_get data ''post_type'' = JStr ''notice''"
  shows "map_of data ''message_type'' = map_of d ''message_type''"
proof -
  from assms(1) obtain data5 where
    br: "notice_fields (dict_get d ''extra'') (common_fields d h) = Inr data5 \<or>
         message_fields E (dict_get d ''extra'') (common_fields d h) = Inr data5"
    and fin: "data = dict_set data5 ''message_id'' (dict_get data5 ''msg_id'')"
    by (rule normalize_Inr)
  have "\<not> message_fields E (dict_get d ''extra'') (common_fields d h) = Inr data5"
  proof
    assume "message_fields E (dict_get d ''extra'') (common_fields d h) = Inr data5"
    then have "dict_get data5 ''post_type'' = JStr ''message''"
      by (elim message_fields_Inr) (simp add: dict_get_set)
    with assms(2) fin show False
      by (simp add: dict_get_set)
  qed
  with br have "notice_fields (dict_get d ''extra'') (common_fields d h) = Inr data5"
    by simp
  then show ?thesis
    using fin by (elim notice_fields_Inr) (simp add: map_of_dict_set common_fields_get)
qed

lemma parse_event_eq:
  "normalize E d h = Inr data \<Longrightarrow> event_name E data = Inr name \<Longrightarrow>
   parse_event E t jd d h =
     (case try_models (parse_obj E) (get_event_model t name) data of
        Some event \<Rightarrow> Inr event
      | None \<Rightarrow>
          (case Event_parse_obj E (fallback_envelope jd data) of
             None \<Rightarrow> Inl ValidationError
           | Some event \<Rightarrow> Inr event))"
  by (simp add: parse_event_def and_then_def)

lemma parse_event_normalize_error:
  "normalize E d h = Inl e \<Longrightarrow> parse_event E t jd d h = Inl e"
  by (simp add: parse_event_def and_then_def)

lemma parse_event_name_error:
  "normalize E d h = Inr data \<Longrightarrow> event_name E data = Inl e \<Longrightarrow> parse_event E t jd d h = Inl e"
  by (simp add: parse_event_def and_then_def)

lemma parse_event_Inr:
  "parse_event E t jd d h = Inr event \<longleftrightarrow>
     (\<exists>data name. normalize E d h = Inr data \<and> event_name E data = Inr name
        \<and> (case try_models (parse_obj E) (get_event_model t name) data of
              Some ev \<Rightarrow> ev = event
            | None \<Rightarrow> Event_parse_obj E (fallback_envelope jd data) = Some event))"
proof (cases "normalize E d h")
  case (Inl e)
  then show ?thesis
    by (simp add: parse_event_normalize_error)
next
  case (Inr data)
  show ?thesis
  proof (cases "event_name E data")
    case (Inl e)
    with Inr show ?thesis
      by (simp add: parse_event_name_error)
  next
    case name: (Inr name)
    show ?thesis
      using Inr name by (simp add: parse_event_eq split: option.splits)
  qed
qed

lemma event_result:
  assumes "dict_item jd ''s'' = Inr signal" and "eq_int signal EVENT"
    and "dict_item jd ''sn'' = Inr v"
  shows "json_to_event E t sn (JObj jd) self_id =
           (set_sn sn self_id v, decode_payload E t jd self_id)"
  using assms by (simp add: json_to_event_continue on_signal_event)

lemma event_without_sn:
  assumes "dict_item jd ''s'' = Inr signal" and "eq_int signal EVENT"
    and "dict_item jd ''sn'' = Inl e"
  shows "json_to_event E t sn (JObj jd) self_id = (sn, Inl e)"
  using assms by (simp add: json_to_event_return on_signal_event)

lemma event_returns_parse:
  assumes res: "snd (json_to_event E t sn (JObj jd) self_id) = Inr (Some event)"
    and sig: "dict_item jd ''s'' = Inr signal" "eq_int signal EVENT"
    and d: "dict_item jd ''d'' = Inr (JObj d)"
  shows "parse_event E t jd d self_id = Inr event"
proof -
  obtain v where v: "dict_item jd ''sn'' = Inr v"
    using res event_without_sn [OF sig, of _ E t sn self_id]
    by (cases "dict_item jd ''sn''") auto
  have dec: "decode_payload E t jd self_id = Inr (Some event)"
    using res event_result [OF sig v, of E t sn self_id] by simp
  have other: "\<not> eq_hint (dict_get d ''author_id'') self_id"
    using dec decode_payload_self [OF d, of self_id E t] by auto
  show ?thesis
    using dec decode_payload_other [OF d other, of E t]
    by (cases "parse_event E t jd d self_id") auto
qed

lemma find_filter: "List.find P xs = Some x \<Longrightarrow> \<exists>rest. filter P xs = x # rest"
  by (induction xs) (auto split: if_splits)

lemma sub_type_names_first:
  assumes "List.find (\<lambda>(name, x). x = c) (EventTypes E) = Some (n1, x1)"
    and "dict_get ex ''type'' = JInt c"
  shows "\<exists>rest. sub_type_names E (JObj ex) = Inr (lower n1 # rest)"
proof -
  have ne: "EventTypes E \<noteq> []"
    using assms(1) by auto
  have same: "(\<lambda>(name, v). eq_int (JInt c) v) = (\<lambda>(name, x). x = c)"
    by auto
  from find_filter [OF assms(1)] obtain rest where
    "filter (\<lambda>(name, x). x = c) (EventTypes E) = (n1, x1) # rest"
    by blast
  then show ?thesis
    using ne assms(2) by (simp add: sub_type_names_def attr_get_def and_then_def same)
qed

lemma group_text_normalize:
  assumes "EventTypes_sys E \<noteq> 9"
    and "List.find (\<lambda>(name, x). x = 1) (EventTypes E) = Some (n1, x1)"
  shows "normalize E group_text_payload (Some ''42'') = Inr
     [(''type'', JInt 9), (''channel_type'', JStr ''GROUP''), (''target_id'', JStr ''g1''),
      (''msg_timestamp'', JInt 1000), (''author_id'', JStr ''2''),
      (''extra'', JObj [(''type'', JInt 1), (''content'', JStr ''hi'')]),
      (''content'', JStr ''hi''), (''msg_id'', JStr ''m1''), (''self_id'', JStr ''42''),
      (''group_id'', JStr ''g1''), (''time'', JInt 1000), (''user_id'', JStr ''2''),
      (''post_type'', JStr ''message''), (''sub_type'', JStr (lower n1)),
      (''message_type'', JStr ''group''),
      (''event'', JObj [(''type'', JInt 1), (''content'', JStr ''hi'')]),
      (''message_id'', JStr ''m1'')]"
proof -
  have ex: "dict_get [(''type'', JInt 1)] ''type'' = JInt 1"
    by (simp add: dict_get_def)
  from sub_type_names_first [OF assms(2) ex] obtain rest where
    names: "sub_type_names E (JObj [(''type'', JInt 1)]) = Inr (lower n1 # rest)"
    by blast
  have low: "lower ''GROUP'' = ''group''"
    by (simp add: lower_def lower_char_def)
  have cf: "common_fields group_text_payload (Some ''42'') =
     [(''type'', JInt 9), (''channel_type'', JStr ''GROUP''), (''target_id'', JStr ''g1''),
      (''msg_timestamp'', JInt 1000), (''author_id'', JStr ''2''),
      (''extra'', JObj [(''type'', JInt 1)]),
      (''content'', JStr ''hi''), (''msg_id'', JStr ''m1''), (''self_id'', JStr ''42''),
      (''group_id'', JStr ''g1''), (''time'', JInt 1000), (''user_id'', JStr ''2'')]"
    by (simp add: common_fields_def group_text_payload_def dict_get_def Let_def)
  have ext: "dict_get group_text_payload ''extra'' = JObj [(''type'', JInt 1)]"
    by (simp add: group_text_payload_def dict_get_def)
  have mf: "message_fields E (JObj [(''type'', JInt 1)])
      [(''type'', JInt 9), (''channel_type'', JStr ''GROUP''), (''target_id'', JStr ''g1''),
      (''msg_timestamp'', JInt 1000), (''author_id'', JStr ''2''),
      (''extra'', JObj [(''type'', JInt 1)]),
      (''content'', JStr ''hi''), (''msg_id'', JStr ''m1''), (''self_id'', JStr ''42''),
      (''group_id'', JStr ''g1''), (''time'', JInt 1000), (''user_id'', JStr ''2'')] = Inr
     [(''type'', JInt 9), (''channel_type'', JStr ''GROUP''), (''target_id'', JStr ''g1''),
      (''msg_timestamp'', JInt 1000), (''author_id'', JStr ''2''),
      (''extra'', JObj [(''type'', JInt 1), (''content'', JStr ''hi'')]),
      (''content'', JStr ''hi''), (''msg_id'', JStr ''m1''), (''self_id'', JStr ''42''),
      (''group_id'', JStr ''g1''), (''time'', JInt 1000), (''user_id'', JStr ''2''),
      (''post_type'', JStr ''message''), (''sub_type'', JStr (lower n1)),
      (''message_type'', JStr ''group''),
      (''event'', JObj [(''type'', JInt 1), (''content'', JStr ''hi'')])]"
    by (simp add: message_fields_def names and_then_def first_elem_def Let_def dict_get_def
        attr_lower_def low dict_item_def subscript_set_def)
  show ?thesis
    using assms(1) unfolding normalize_def Let_def cf ext
    by (simp add: and_then_def dict_item_def mf dict_get_def)
qed

lemma try_models_None_iff:
  "try_models p ms data = None \<longleftrightarrow> (\<forall>m\<in>set ms. p m data = None)"
  by (induction ms) (auto split: option.splits)

lemma try_models_Some_iff:
  "try_models p ms data = Some ev \<longleftrightarrow>
     (\<exists>pre m post. ms = pre @ m # post \<and> (\<forall>x\<in>set pre. p x data = None) \<and> p m data = Some ev)"
proof (induction ms)
  case Nil
  show ?case by simp
next
  case (Cons a ms)
  show ?case
  proof (cases "p a data")
    case None
    have "(\<exists>pre m post. a # ms = pre @ m # post \<and> (\<forall>x\<in>set pre. p x data = None)
            \<and> p m data = Some ev)
        \<longleftrightarrow> (\<exists>pre m post. ms = pre @ m # post \<and> (\<forall>x\<in>set pre. p x data = None)
            \<and> p m data = Some ev)"
    proof
      assume "\<exists>pre m post. a # ms = pre @ m # post \<and> (\<forall>x\<in>set pre. p x data = None)
            \<and> p m data = Some ev"
      then obtain pre m post where
        *: "a # ms = pre @ m # post" "\<forall>x\<in>set pre. p x data = None" "p m data = Some ev"
        by blast
      with None obtain pre' where "pre = a # pre'"
        by (cases pre) auto
      with * show "\<exists>pre m post. ms = pre @ m # post \<and> (\<forall>x\<in>set pre. p x data = None)
            \<and> p m data = Some ev"
        by auto
    next
      assume "\<exists>pre m post. ms = pre @ m # post \<and> (\<forall>x\<in>set pre. p x data = None)
            \<and> p m data = Some ev"
      then obtain pre m post where
        *: "ms = pre @ m # post" "\<forall>x\<in>set pre. p x data = None" "p m data = Some ev"
        by blast
      then have "a # ms = (a # pre) @ m # post \<and> (\<forall>x\<in>set (a # pre). p x data = None)
          \<and> p m data = Some ev"
        using None by simp
      then show "\<exists>pre m post. a # ms = pre @ m # post \<and> (\<forall>x\<in>set pre. p x data = None)
            \<and> p m data = Some ev"
        by blast
    qed
    with None Cons.IH show ?thesis
      by simp
  next
    case (Some e)
    have "(\<exists>pre m post. a # ms = pre @ m # post \<and> (\<forall>x\<in>set pre. p x data = None)
            \<and> p m data = Some ev) \<longleftrightarrow> e = ev"
    proof
      assume "\<exists>pre m post. a # ms = pre @ m # post \<and> (\<forall>x\<in>set pre. p x data = None)
            \<and> p m data = Some ev"
      then obtain pre m post where
        *: "a # ms = pre @ m # post" "\<forall>x\<in>set pre. p x data = None" "p m data = Some ev"
        by blast
      with Some have "pre = []"
        by (cases pre) auto
      with * Some show "e = ev"
        by simp
    next
      assume "e = ev"
      with Some have "a # ms = [] @ a # ms \<and> (\<forall>x\<in>set []. p x data = None) \<and> p a data = Some ev"
        by simp
      then show "\<exists>pre m post. a # ms = pre @ m # post \<and> (\<forall>x\<in>set pre. p x data = None)
            \<and> p m data = Some ev"
        by blast
    qed
    with Some show ?thesis
      by simp
  qed
qed

lemma path_from_dotted: "path_from_key (CHR ''.'' # ev) = [] # split CHR ''.'' ev"
  by (simp add: path_from_key_def)

lemma keys_dotted_empty: "keys_dotted Map.empty"
  by (simp add: keys_dotted_def)

lemma keys_dotted_trie_set:
  "keys_dotted t \<Longrightarrow> keys_dotted (trie_set t (CHR ''.'' # ev) m)"
  unfolding keys_dotted_def trie_set_def by (metis append_Cons append_Nil fun_upd_apply)

lemma keys_dotted_fold:
  "keys_dotted t \<Longrightarrow>
   keys_dotted (fold (\<lambda>(ev, model) t. trie_set t (''.'' @ ev) model) classes t)"
  by (induction classes arbitrary: t) (auto simp: keys_dotted_trie_set)

lemma keys_dotted_init: "keys_dotted (init_event_models classes)"
  unfolding init_event_models_def by (rule keys_dotted_fold [OF keys_dotted_empty])

lemma keys_dotted_add_custom_model:
  "keys_dotted t \<Longrightarrow> add_custom_model t ev m = Inr t' \<Longrightarrow> keys_dotted t'"
  by (auto simp: add_custom_model_def keys_dotted_trie_set split: if_splits)

lemma map_filter_member: "x \<in> set xs \<Longrightarrow> f x = Some y \<Longrightarrow> y \<in> set (List.map_filter f xs)"
  by (force simp: List.map_filter_def)

lemma map_filter_Nil_iff: "List.map_filter f xs = [] \<longleftrightarrow> (\<forall>x\<in>set xs. f x = None)"
  by (induction xs) (auto simp: List.map_filter_def)

lemma prefixes_by_length: "sorted_wrt (\<lambda>a b. length a < length b) (prefixes xs)"
  by (induction xs) (auto simp: sorted_wrt_map)

lemma get_event_model_paths:
  "get_event_model t q =
     map (\<lambda>pth. the (t pth))
       (rev (filter (\<lambda>pth. t pth \<noteq> None) (prefixes (path_from_key (''.'' @ q)))))"
  by (simp add: get_event_model_def trie_prefixes_def List.map_filter_def rev_map comp_def)

lemma most_specific_first:
  "sorted_wrt (\<lambda>a b. length b < length a)
     (rev (filter (\<lambda>pth. t pth \<noteq> None) (prefixes (path_from_key (''.'' @ q)))))"
  unfolding sorted_wrt_rev by (rule sorted_wrt_filter [OF prefixes_by_length])

lemma registered_prefix_returned:
  assumes "registered t p m" and "path_prefix p q"
  shows "m \<in> set (get_event_model t q)"
proof -
  have "path_from_key (''.'' @ p) \<in> set (prefixes (path_from_key (''.'' @ q)))"
    using assms(2) by (simp add: path_from_dotted path_prefix_def)
  then show ?thesis
    using assms(1)
    by (simp add: get_event_model_def trie_prefixes_def registered_def map_filter_member)
qed

lemma no_registered_prefix:
  assumes "keys_dotted t" and "\<forall>p m. path_prefix p q \<longrightarrow> \<not> registered t p m"
  shows "get_event_model t q = []"
proof -
  have "t pth = None" if "pth \<in> set (prefixes (path_from_key (''.'' @ q)))" for pth
  proof (rule ccontr)
    assume "t pth \<noteq> None"
    then obtain m where m: "t pth = Some m"
      by blast
    with assms(1) obtain ev where ev: "pth = path_from_key (''.'' @ ev)"
      unfolding keys_dotted_def by blast
    have "prefix pth (path_from_key (''.'' @ q))"
      using that by (simp only: in_set_prefixes)
    then have "path_prefix ev q"
      using ev by (simp add: path_from_dotted path_prefix_def)
    moreover have "registered t ev m"
      using m ev by (simp add: registered_def)
    ultimately show False
      using assms(2) by blast
  qed
  then show ?thesis
    by (simp add: get_event_model_def trie_prefixes_def map_filter_Nil_iff)
qed

lemma fallback_envelope_entries:
  "dict_get (fallback_envelope jd data) ''d'' = JObj data"
  "k \<noteq> ''d'' \<Longrightarrow> map_of (fallback_envelope jd data) k = map_of jd k"
  by (simp_all add: fallback_envelope_def dict_get_set map_of_dict_set)

lemma start_heartbeat_closed:
  "\<not> reports_open w self_id \<Longrightarrow> start_heartbeat self_id (w # rest) = ([], Exited)"
  by (auto simp: reports_open_def split: option.splits)

lemma start_heartbeat_raises:
  "reports_open w self_id \<Longrightarrow> send_raises w = Some e \<Longrightarrow>
   start_heartbeat self_id (w # rest) = ([ping (store w) self_id], Raised e)"
  by (auto simp: reports_open_def split: option.splits)

lemma start_heartbeat_open:
  "list_all (\<lambda>w. reports_open w self_id \<and> send_raises w = None) ws \<Longrightarrow>
   start_heartbeat self_id (ws @ rest) =
     (map (\<lambda>w. ping (store w) self_id) ws @ fst (start_heartbeat self_id rest),
      snd (start_heartbeat self_id rest))"
  by (induction ws) (auto simp: reports_open_def split: option.splits prod.splits)

text \<open>
  Claim C1. For an envelope whose signal is HELLO and whose payload is a dict
  with an entry \<^verbatim>\<open>code\<close>, \<open>json_to_event\<close> branches on the code and leaves the
  sequence store as it is: with code 0 it returns what
  \<^verbatim>\<open>LifecycleMetaEvent.parse_obj\<close> builds from the payload with \<^verbatim>\<open>post_type\<close>
  \<^verbatim>\<open>"meta_event"\<close>, \<^verbatim>\<open>sub_type\<close> \<^verbatim>\<open>"connect"\<close> and \<^verbatim>\<open>meta_event_type\<close>
  \<^verbatim>\<open>"lifecycle"\<close> (the validation error of that class, if it rejects the
  payload, is raised); with code 40103 it raises \<^verbatim>\<open>ReconnectError\<close>; with code
  40101 and with code 40102 it raises \<^verbatim>\<open>TokenError\<close>.
\<close>

theorem hello_code_branches:
  assumes "dict_item jd ''s'' = Inr signal" and "eq_int signal HELLO"
    and "dict_item jd ''d'' = Inr (JObj d)" and "dict_item d ''code'' = Inr code"
  shows
    "(eq_int code 0 \<longrightarrow>
        (let data = dict_set (dict_set (dict_set d ''post_type'' (JStr ''meta_event''))
                      ''sub_type'' (JStr ''connect'')) ''meta_event_type'' (JStr ''lifecycle'')
         in dict_get data ''post_type'' = JStr ''meta_event''
          \<and> dict_get data ''sub_type'' = JStr ''connect''
          \<and> dict_get data ''meta_event_type'' = JStr ''lifecycle''
          \<and> json_to_event E t sn (JObj jd) self_id =
              (sn, case LifecycleMetaEvent_parse_obj E data of
                     None \<Rightarrow> Inl ValidationError
                   | Some event \<Rightarrow> Inr (Some event))))
   \<and> (eq_int code 40103 \<longrightarrow> json_to_event E t sn (JObj jd) self_id = (sn, Inl ReconnectError))
   \<and> (eq_int code 40101 \<longrightarrow>
        json_to_event E t sn (JObj jd) self_id = (sn, Inl (TokenError invalid_token)))
   \<and> (eq_int code 40102 \<longrightarrow>
        json_to_event E t sn (JObj jd) self_id = (sn, Inl (TokenError token_verification_failed)))"
proof -
  have sig: "on_signal E sn jd self_id signal = (sn, on_hello E jd)"
    using assms(2) by (simp add: on_signal_def)
  have res: "json_to_event E t sn (JObj jd) self_id =
      (case on_hello E jd of Return r \<Rightarrow> (sn, r) | Continue \<Rightarrow> (sn, decode_payload E t jd self_id))"
    using assms(1) sig by (simp add: json_to_event_def)
  have hello: "on_hello E jd =
      (if eq_int code 0 then
         (case LifecycleMetaEvent_parse_obj E
                 (dict_set (dict_set (dict_set d ''post_type'' (JStr ''meta_event''))
                    ''sub_type'' (JStr ''connect'')) ''meta_event_type'' (JStr ''lifecycle'')) of
            None \<Rightarrow> Return (Inl ValidationError)
          | Some event \<Rightarrow> Return (Inr (Some event)))
       else if eq_int code 40103 then Return (Inl ReconnectError)
       else if eq_int code 40101 then Return (Inl (TokenError invalid_token))
       else if eq_int code 40102 then Return (Inl (TokenError token_verification_failed))
       else Continue)"
    using assms(3,4) by (simp add: on_hello_def and_then_def subscript_def)
  have c0: "eq_int code 0 \<Longrightarrow> ?thesis"
    using eq_int_unique [of code 0 40103] eq_int_unique [of code 0 40101]
      eq_int_unique [of code 0 40102]
    by (auto simp: res hello dict_get_set Let_def split: option.splits)
  have c1: "eq_int code 40103 \<Longrightarrow> ?thesis"
    using eq_int_unique [of code 40103 0] eq_int_unique [of code 40103 40101]
      eq_int_unique [of code 40103 40102]
    by (auto simp: res hello)
  have c2: "eq_int code 40101 \<Longrightarrow> ?thesis"
    using eq_int_unique [of code 40101 0] eq_int_unique [of code 40101 40103]
      eq_int_unique [of code 40101 40102]
    by (auto simp: res hello)
  have c3: "eq_int code 40102 \<Longrightarrow> ?thesis"
    using eq_int_unique [of code 40102 0] eq_int_unique [of code 40102 40103]
      eq_int_unique [of code 40102 40101]
    by (auto simp: res hello)
  have none: "\<not> eq_int code 0 \<Longrightarrow> \<not> eq_int code 40103 \<Longrightarrow> \<not> eq_int code 40101 \<Longrightarrow>
      \<not> eq_int code 40102 \<Longrightarrow> ?thesis"
    by simp
  show ?thesis
    using c0 c1 c2 c3 none by blast
qed


theorem hello_code_branches_witness:
  "json_to_event demo_module demo_models Map.empty
     (JObj [(''s'', JInt HELLO), (''d'', JObj [(''code'', JInt 0)])]) None =
     (Map.empty,
      Inr (Some (''LifecycleMetaEvent'',
        [(''code'', JInt 0), (''post_type'', JStr ''meta_event''),
         (''sub_type'', JStr ''connect''), (''meta_event_type'', JStr ''lifecycle'')])))
   \<and> json_to_event demo_module demo_models Map.empty
     (JObj [(''s'', JInt HELLO), (''d'', JObj [(''code'', JInt 40103)])]) None =
     (Map.empty, Inl ReconnectError)
   \<and> json_to_event demo_module demo_models Map.empty
     (JObj [(''s'', JInt HELLO), (''d'', JObj [(''code'', JInt 40101)])]) None =
     (Map.empty, Inl (TokenError invalid_token))
   \<and> json_to_event demo_module demo_models Map.empty
     (JObj [(''s'', JInt HELLO), (''d'', JObj [(''code'', JInt 40102)])]) None =
     (Map.empty, Inl (TokenError token_verification_failed))"
  using
    hello_code_branches [where jd = "[(''s'', JInt HELLO), (''d'', JObj [(''code'', JInt 0)])]"
      and signal = "JInt HELLO" and d = "[(''code'', JInt 0)]" and code = "JInt 0"
      and E = demo_module and t = demo_models and sn = Map.empty and self_id = None]
    hello_code_branches [where jd = "[(''s'', JInt HELLO), (''d'', JObj [(''code'', JInt 40103)])]"
      and signal = "JInt HELLO" and d = "[(''code'', JInt 40103)]" and code = "JInt 40103"
      and E = demo_module and t = demo_models and sn = Map.empty and self_id = None]
    hello_code_branches [where jd = "[(''s'', JInt HELLO), (''d'', JObj [(''code'', JInt 40101)])]"
      and signal = "JInt HELLO" and d = "[(''code'', JInt 40101)]" and code = "JInt 40101"
      and E = demo_module and t = demo_models and sn = Map.empty and self_id = None]
    hello_code_branches [where jd = "[(''s'', JInt HELLO), (''d'', JObj [(''code'', JInt 40102)])]"
      and signal = "JInt HELLO" and d = "[(''code'', JInt 40102)]" and code = "JInt 40102"
      and E = demo_module and t = demo_models and sn = Map.empty and self_id = None]
  by (simp add: dict_item_def dict_get_def HELLO_def demo_module_def requiring_def Let_def)

text \<open>
  Claim C5, as amended. For an envelope that reaches the check for the bot's
  own messages (the signal dispatch neither returned nor raised) and whose
  payload is a dict with \<^verbatim>\<open>author_id\<close> equal to the bound identity,
  \<open>json_to_event\<close> returns no event, whatever else the payload holds. This is
  so for every EVENT envelope that carries \<^verbatim>\<open>sn\<close>: the sequence number is
  recorded and no event is returned.
\<close>

theorem self_authored_dropped:
  assumes "dict_item jd ''s'' = Inr signal"
    and "dict_item jd ''d'' = Inr (JObj d)"
    and "dict_get d ''author_id'' = JStr self_id"
  shows
    "(on_signal E sn jd (Some self_id) signal = (sn', Continue) \<longrightarrow>
        json_to_event E t sn (JObj jd) (Some self_id) = (sn', Inr None))
   \<and> (eq_int signal EVENT \<longrightarrow> dict_item jd ''sn'' = Inr v \<longrightarrow>
        json_to_event E t sn (JObj jd) (Some self_id) = (set_sn sn (Some self_id) v, Inr None))"
proof -
  have self: "eq_hint (dict_get d ''author_id'') (Some self_id)"
    using assms(3) by simp
  have drop: "decode_payload E t jd (Some self_id) = Inr None"
    using assms(2) self by (rule decode_payload_self)
  show ?thesis
    using assms(1) drop
    by (auto simp: json_to_event_continue on_signal_event)
qed

theorem self_authored_dropped_witness:
  "json_to_event demo_module demo_models Map.empty
     (JObj [(''s'', JInt 99), (''d'', JObj group_text_payload)]) (Some ''2'') =
     (Map.empty, Inr None)
   \<and> json_to_event demo_module demo_models Map.empty
     (JObj [(''s'', JInt EVENT), (''sn'', JInt 7), (''d'', JObj group_text_payload)]) (Some ''2'') =
     (set_sn Map.empty (Some ''2'') (JInt 7), Inr None)"
  using
    self_authored_dropped [where jd = "[(''s'', JInt 99), (''d'', JObj group_text_payload)]"
      and signal = "JInt 99" and d = group_text_payload and self_id = "''2''"
      and E = demo_module and sn = Map.empty and sn' = Map.empty and t = demo_models]
    self_authored_dropped [where jd = "[(''s'', JInt EVENT), (''sn'', JInt 7),
        (''d'', JObj group_text_payload)]"
      and signal = "JInt EVENT" and d = group_text_payload and self_id = "''2''"
      and E = demo_module and sn = Map.empty and v = "JInt 7" and t = demo_models]
  by (simp add: dict_item_def dict_get_def on_signal_def signal_defs group_text_payload_def)

theorem self_authored_pong_counterexample:
  "json_to_event demo_module demo_models Map.empty
     (JObj [(''s'', JInt PONG), (''d'', JObj [(''author_id'', JStr ''42'')])]) (Some ''42'') =
     (Map.empty,
      Inr (Some (''HeartbeatMetaEvent'',
        [(''post_type'', JStr ''meta_event''), (''meta_event_type'', JStr ''heartbeat'')])))"
  by (simp add: json_to_event_def dict_item_def on_signal_def signal_defs demo_module_def
      requiring_def dict_get_def)

text \<open>
  Claim C7, as amended. An envelope whose signal is RESUME_ACK gives no event.
  An envelope whose signal is none of HELLO, PONG, EVENT, RECONNECT and
  RESUME_ACK is not dropped: the sequence store is left as it is and the
  payload goes through the check for the bot's own messages and the decoding
  that an EVENT payload goes through, so a payload of another author that
  decodes gives an event.
\<close>

theorem resume_ack_and_unhandled_signals:
  assumes "dict_item jd ''s'' = Inr signal"
  shows
    "(eq_int signal RESUME_ACK \<longrightarrow> json_to_event E t sn (JObj jd) self_id = (sn, Inr None))
   \<and> (\<not> eq_int signal HELLO \<and> \<not> eq_int signal PONG \<and> \<not> eq_int signal EVENT
        \<and> \<not> eq_int signal RECONNECT \<and> \<not> eq_int signal RESUME_ACK \<longrightarrow>
        json_to_event E t sn (JObj jd) self_id = (sn, decode_payload E t jd self_id)
      \<and> (dict_item jd ''d'' = Inr (JObj d) \<and> \<not> eq_hint (dict_get d ''author_id'') self_id \<longrightarrow>
           json_to_event E t sn (JObj jd) self_id =
             (sn, Inr (case parse_event E t jd d self_id of
                         Inl e \<Rightarrow> None
                       | Inr event \<Rightarrow> Some event))))"
  using assms
  by (auto simp: json_to_event_return on_signal_resume_ack json_to_event_continue on_signal_other
      decode_payload_other)

theorem resume_ack_and_unhandled_signals_witness:
  "json_to_event demo_module demo_models Map.empty
     (JObj [(''s'', JInt RESUME_ACK), (''d'', JObj group_text_payload)]) (Some ''42'') =
     (Map.empty, Inr None)
   \<and> fst (json_to_event demo_module demo_models Map.empty
       (JObj [(''s'', JInt PING), (''d'', JObj group_text_payload)]) (Some ''42'')) = Map.empty
   \<and> (case snd (json_to_event demo_module demo_models Map.empty
       (JObj [(''s'', JInt PING), (''d'', JObj group_text_payload)]) (Some ''42'')) of
        Inr (Some (cls, payload)) \<Rightarrow>
          cls = ''MessageEvent'' \<and> dict_get payload ''user_id'' = JStr ''2''
      | _ \<Rightarrow> False)"
proof -
  have ev: "(case parse_event demo_module demo_models
               [(''s'', JInt PING), (''d'', JObj group_text_payload)] group_text_payload
               (Some ''42'') of
              Inr (cls, payload) \<Rightarrow>
                cls = ''MessageEvent'' \<and> dict_get payload ''user_id'' = JStr ''2''
            | _ \<Rightarrow> False)"
    by code_simp
  show ?thesis
    using ev
      resume_ack_and_unhandled_signals [where jd = "[(''s'', JInt RESUME_ACK),
          (''d'', JObj group_text_payload)]"
        and signal = "JInt RESUME_ACK" and E = demo_module and t = demo_models
        and sn = Map.empty and self_id = "Some ''42''"]
      resume_ack_and_unhandled_signals [where jd = "[(''s'', JInt PING),
          (''d'', JObj group_text_payload)]"
        and signal = "JInt PING" and d = group_text_payload and E = demo_module
        and t = demo_models and sn = Map.empty and self_id = "Some ''42''"]
    by (auto simp: dict_item_def dict_get_def signal_defs group_text_payload_def
        split: sum.splits option.splits)
qed

theorem unknown_signal_counterexample:
  "(case snd (json_to_event demo_module demo_models Map.empty
       (JObj [(''s'', JInt 99), (''d'', JObj group_text_payload)]) (Some ''42'')) of
      Inr (Some (cls, payload)) \<Rightarrow>
        cls = ''MessageEvent'' \<and> dict_get payload ''message_id'' = JStr ''m1''
    | _ \<Rightarrow> False)"
  by code_simp

text \<open>
  Claim C10. While no bot is bound the identity hint is \<^verbatim>\<open>None\<close>. For an
  envelope that reaches the check for the bot's own messages and whose payload
  is a dict without \<^verbatim>\<open>author_id\<close>, \<open>json_to_event\<close> returns no event: the absent
  \<^verbatim>\<open>author_id\<close> reads as \<^verbatim>\<open>None\<close> and equals the hint. This holds for every
  EVENT envelope that carries \<^verbatim>\<open>sn\<close>, whose sequence number is recorded under
  the key \<^verbatim>\<open>None\<close>.
\<close>

theorem unbound_without_author_dropped:
  assumes "dict_item jd ''s'' = Inr signal"
    and "dict_item jd ''d'' = Inr (JObj d)"
    and "map_of d ''author_id'' = None"
  shows
    "(on_signal E sn jd None signal = (sn', Continue) \<longrightarrow>
        json_to_event E t sn (JObj jd) None = (sn', Inr None))
   \<and> (eq_int signal EVENT \<longrightarrow> dict_item jd ''sn'' = Inr v \<longrightarrow>
        json_to_event E t sn (JObj jd) None = (set_sn sn None v, Inr None))"
proof -
  have self: "eq_hint (dict_get d ''author_id'') None"
    using assms(3) by (simp add: dict_get_def)
  have drop: "decode_payload E t jd None = Inr None"
    using assms(2) self by (rule decode_payload_self)
  show ?thesis
    using assms(1) drop
    by (auto simp: json_to_event_continue on_signal_event)
qed

theorem unbound_without_author_dropped_witness:
  "json_to_event demo_module demo_models Map.empty
     (JObj [(''s'', JInt 99),
            (''d'', JObj [(''type'', JInt 9), (''channel_type'', JStr ''GROUP'')])])
     None = (Map.empty, Inr None)
   \<and> json_to_event demo_module demo_models Map.empty
     (JObj [(''s'', JInt EVENT), (''sn'', JInt 7),
            (''d'', JObj [(''type'', JInt 9), (''channel_type'', JStr ''GROUP'')])])
     None = (set_sn Map.empty None (JInt 7), Inr None)"
  using
    unbound_without_author_dropped [where jd = "[(''s'', JInt 99),
        (''d'', JObj [(''type'', JInt 9), (''channel_type'', JStr ''GROUP'')])]"
      and signal = "JInt 99" and d = "[(''type'', JInt 9), (''channel_type'', JStr ''GROUP'')]"
      and E = demo_module and sn = Map.empty and sn' = Map.empty and t = demo_models]
    unbound_without_author_dropped [where jd = "[(''s'', JInt EVENT), (''sn'', JInt 7),
        (''d'', JObj [(''type'', JInt 9), (''channel_type'', JStr ''GROUP'')])]"
      and signal = "JInt EVENT" and d = "[(''type'', JInt 9), (''channel_type'', JStr ''GROUP'')]"
      and E = demo_module and sn = Map.empty and v = "JInt 7" and t = demo_models]
  by (simp add: dict_item_def on_signal_def signal_defs)

text \<open>
  Claim C3, as amended. When \<open>json_to_event\<close> returns an event for an EVENT
  envelope, the event is built from the normalised payload, by the first
  candidate model that accepts it or else from the envelope by the base class,
  and in that payload: \<^verbatim>\<open>self_id\<close> is the identity hint; \<^verbatim>\<open>user_id\<close> is
  \<^verbatim>\<open>"SYSTEM"\<close> when \<^verbatim>\<open>author_id\<close> is \<^verbatim>\<open>"1"\<close> and is \<^verbatim>\<open>author_id\<close> otherwise; for a
  message (any payload that is not a system notice) \<^verbatim>\<open>message_type\<close> is never
  \<^verbatim>\<open>"person"\<close> and is \<^verbatim>\<open>"private"\<close> when \<^verbatim>\<open>channel_type\<close> is \<^verbatim>\<open>"PERSON"\<close>; for a system
  notice \<^verbatim>\<open>message_type\<close> is not assigned.
\<close>

theorem event_payload_fields:
  assumes "snd (json_to_event E t sn (JObj jd) self_id) = Inr (Some event)"
    and "dict_item jd ''s'' = Inr signal" and "eq_int signal EVENT"
    and "dict_item jd ''d'' = Inr (JObj d)"
  shows
    "(case normalize E d self_id of
        Inl e \<Rightarrow> False
      | Inr data \<Rightarrow>
          (case event_name E data of
             Inl e \<Rightarrow> False
           | Inr name \<Rightarrow>
               (case try_models (parse_obj E) (get_event_model t name) data of
                  Some ev \<Rightarrow> ev = event
                | None \<Rightarrow> Event_parse_obj E (fallback_envelope jd data) = Some event))
        \<and> dict_get data ''self_id'' = of_hint self_id
        \<and> dict_get data ''user_id'' =
            (if dict_get d ''author_id'' = JStr ''1'' then JStr ''SYSTEM''
             else dict_get d ''author_id'')
        \<and> (dict_get data ''post_type'' = JStr ''message'' \<longrightarrow>
              dict_get data ''message_type'' \<noteq> JStr ''person''
            \<and> (dict_get d ''channel_type'' = JStr ''PERSON'' \<longrightarrow>
                  dict_get data ''message_type'' = JStr ''private''))
        \<and> (dict_get data ''post_type'' = JStr ''notice'' \<longrightarrow>
              map_of data ''message_type'' = map_of d ''message_type''))"
proof -
  have "parse_event E t jd d self_id = Inr event"
    using assms by (rule event_returns_parse)
  then obtain data name where
    n: "normalize E d self_id = Inr data" and en: "event_name E data = Inr name"
    and ev: "(case try_models (parse_obj E) (get_event_model t name) data of
                Some ev \<Rightarrow> ev = event
              | None \<Rightarrow> Event_parse_obj E (fallback_envelope jd data) = Some event)"
    unfolding parse_event_Inr by blast
  have msg: "dict_get data ''message_type'' \<noteq> JStr ''person''
      \<and> (dict_get d ''channel_type'' = JStr ''PERSON'' \<longrightarrow>
            dict_get data ''message_type'' = JStr ''private'')"
    if "dict_get data ''post_type'' = JStr ''message''"
  proof -
    from normalize_message [OF n that] obtain s where
      s: "dict_get d ''channel_type'' = JStr s"
      and mt: "dict_get data ''message_type'' =
                 JStr (if lower s = ''person'' then ''private'' else lower s)"
      by blast
    have "dict_get data ''message_type'' \<noteq> JStr ''person''"
      by (cases "lower s = ''person''") (simp_all add: mt)
    moreover have "dict_get data ''message_type'' = JStr ''private''"
      if "dict_get d ''channel_type'' = JStr ''PERSON''"
      using that s mt by (simp add: lower_PERSON)
    ultimately show ?thesis
      by simp
  qed
  show ?thesis
    using n en ev normalize_get(1,2) [OF n] msg normalize_notice [OF n]
    by simp
qed

theorem event_payload_fields_witness:
  "(let data =
      [(''type'', JInt 9), (''channel_type'', JStr ''PERSON''), (''target_id'', JStr ''u1''),
       (''msg_timestamp'', JInt 1000), (''author_id'', JStr ''1''),
       (''extra'', JObj [(''type'', JInt 1), (''content'', JStr ''hi'')]),
       (''content'', JStr ''hi''), (''msg_id'', JStr ''m2''), (''self_id'', JStr ''42''),
       (''group_id'', JStr ''u1''), (''time'', JInt 1000), (''user_id'', JStr ''SYSTEM''),
       (''post_type'', JStr ''message''), (''sub_type'', JStr ''text''),
       (''message_type'', JStr ''private''),
       (''event'', JObj [(''type'', JInt 1), (''content'', JStr ''hi'')]),
       (''message_id'', JStr ''m2'')]
    in snd (json_to_event demo_module demo_models Map.empty
              (JObj (event_frame 5 person_text_payload)) (Some ''42'')) =
         Inr (Some (''MessageEvent'', data))
     \<and> normalize demo_module person_text_payload (Some ''42'') = Inr data
     \<and> dict_get data ''self_id'' = JStr ''42''
     \<and> dict_get data ''user_id'' = JStr ''SYSTEM''
     \<and> dict_get data ''message_type'' = JStr ''private'')"
proof -
  have r: "snd (json_to_event demo_module demo_models Map.empty
              (JObj (event_frame 5 person_text_payload)) (Some ''42'')) =
      Inr (Some (''MessageEvent'',
      [(''type'', JInt 9), (''channel_type'', JStr ''PERSON''), (''target_id'', JStr ''u1''),
       (''msg_timestamp'', JInt 1000), (''author_id'', JStr ''1''),
       (''extra'', JObj [(''type'', JInt 1), (''content'', JStr ''hi'')]),
       (''content'', JStr ''hi''), (''msg_id'', JStr ''m2''), (''self_id'', JStr ''42''),
       (''group_id'', JStr ''u1''), (''time'', JInt 1000), (''user_id'', JStr ''SYSTEM''),
       (''post_type'', JStr ''message''), (''sub_type'', JStr ''text''),
       (''message_type'', JStr ''private''),
       (''event'', JObj [(''type'', JInt 1), (''content'', JStr ''hi'')]),
       (''message_id'', JStr ''m2'')]))"
    by code_simp
  have n: "normalize demo_module person_text_payload (Some ''42'') = Inr
      [(''type'', JInt 9), (''channel_type'', JStr ''PERSON''), (''target_id'', JStr ''u1''),
       (''msg_timestamp'', JInt 1000), (''author_id'', JStr ''1''),
       (''extra'', JObj [(''type'', JInt 1), (''content'', JStr ''hi'')]),
       (''content'', JStr ''hi''), (''msg_id'', JStr ''m2''), (''self_id'', JStr ''42''),
       (''group_id'', JStr ''u1''), (''time'', JInt 1000), (''user_id'', JStr ''SYSTEM''),
       (''post_type'', JStr ''message''), (''sub_type'', JStr ''text''),
       (''message_type'', JStr ''private''),
       (''event'', JObj [(''type'', JInt 1), (''content'', JStr ''hi'')]),
       (''message_id'', JStr ''m2'')]"
    by code_simp
  have s: "dict_item (event_frame 5 person_text_payload) ''s'' = Inr (JInt EVENT)"
    by (simp add: event_frame_def dict_item_def)
  have e: "eq_int (JInt EVENT) EVENT"
    by simp
  have d: "dict_item (event_frame 5 person_text_payload) ''d'' = Inr (JObj person_text_payload)"
    by (simp add: event_frame_def dict_item_def)
  have a: "dict_get person_text_payload ''author_id'' = JStr ''1''"
    "dict_get person_text_payload ''channel_type'' = JStr ''PERSON''"
    by (simp_all add: person_text_payload_def dict_get_def)
  from event_payload_fields [OF r s e d] n a show ?thesis
    by (simp add: Let_def r dict_get_def)
qed

theorem event_payload_fields_counterexample:
  "(case snd (json_to_event demo_module demo_models Map.empty
       (JObj (event_frame 6 person_notice_payload)) (Some ''42'')) of
      Inr (Some (cls, payload)) \<Rightarrow>
        cls = ''NoticeEvent'' \<and> dict_get payload ''channel_type'' = JStr ''PERSON''
        \<and> map_of payload ''message_type'' = None
    | _ \<Rightarrow> False)
   \<and> (case snd (json_to_event demo_module demo_models Map.empty
       (JObj (event_frame 7 system_named_payload)) (Some ''42'')) of
      Inr (Some (cls, payload)) \<Rightarrow>
        cls = ''MessageEvent'' \<and> dict_get payload ''author_id'' = JStr ''SYSTEM''
        \<and> dict_get payload ''user_id'' = JStr ''SYSTEM''
    | _ \<Rightarrow> False)"
  by code_simp

text \<open>
  Claim C4, as amended. For every envelope whose signal is EVENT and that
  carries \<^verbatim>\<open>sn\<close>, \<open>json_to_event\<close> records \<^verbatim>\<open>sn\<close> in the sequence store under the
  identity hint and then goes on to the check for the bot's own messages and
  the decoding of the payload. For the example frame with sequence number 42,
  bound identity \<^verbatim>\<open>"42"\<close> and \<^verbatim>\<open>channel_type\<close> \<^verbatim>\<open>"GROUP"\<close> at the top level of the
  payload, in an event module where 9 is not the system type and 1 is a member
  of \<^verbatim>\<open>EventTypes\<close>: the store entry for \<^verbatim>\<open>"42"\<close> becomes 42, and the event is
  built from the normalised payload, in which \<^verbatim>\<open>post_type\<close> is \<^verbatim>\<open>"message"\<close>,
  \<^verbatim>\<open>message_type\<close> is \<^verbatim>\<open>"group"\<close>, \<^verbatim>\<open>user_id\<close> is \<^verbatim>\<open>"2"\<close> and \<^verbatim>\<open>message_id\<close> is
  \<^verbatim>\<open>"m1"\<close>.
\<close>

theorem event_records_sn_then_decodes:
  assumes "dict_item jd ''s'' = Inr signal" and "eq_int signal EVENT"
    and "dict_item jd ''sn'' = Inr v"
  shows
    "json_to_event E t sn (JObj jd) self_id =
       (set_sn sn self_id v, decode_payload E t jd self_id)
   \<and> get_sn (fst (json_to_event E t sn (JObj jd) self_id)) self_id = v
   \<and> (EventTypes_sys E \<noteq> 9 \<longrightarrow>
        List.find (\<lambda>(name, x). x = 1) (EventTypes E) = Some (n1, x1) \<longrightarrow>
        (case normalize E group_text_payload (Some ''42'') of
           Inl e \<Rightarrow> False
         | Inr data \<Rightarrow>
             dict_get data ''post_type'' = JStr ''message''
           \<and> dict_get data ''message_type'' = JStr ''group''
           \<and> dict_get data ''user_id'' = JStr ''2''
           \<and> dict_get data ''message_id'' = JStr ''m1''
           \<and> (case event_name E data of
                 Inl e \<Rightarrow> False
               | Inr name \<Rightarrow>
                   json_to_event E t sn (JObj (event_frame 42 group_text_payload)) (Some ''42'') =
                     (set_sn sn (Some ''42'') (JInt 42),
                      Inr (case try_models (parse_obj E) (get_event_model t name) data of
                             Some ev \<Rightarrow> Some ev
                           | None \<Rightarrow>
                               Event_parse_obj E
                                 (fallback_envelope (event_frame 42 group_text_payload) data))))))"
proof -
  have rec: "json_to_event E t sn (JObj jd) self_id =
       (set_sn sn self_id v, decode_payload E t jd self_id)"
    using assms by (rule event_result)
  have read: "get_sn (fst (json_to_event E t sn (JObj jd) self_id)) self_id = v"
    by (simp add: rec set_sn_def get_sn_def)
  have ex: "(case normalize E group_text_payload (Some ''42'') of
           Inl e \<Rightarrow> False
         | Inr data \<Rightarrow>
             dict_get data ''post_type'' = JStr ''message''
           \<and> dict_get data ''message_type'' = JStr ''group''
           \<and> dict_get data ''user_id'' = JStr ''2''
           \<and> dict_get data ''message_id'' = JStr ''m1''
           \<and> (case event_name E data of
                 Inl e \<Rightarrow> False
               | Inr name \<Rightarrow>
                   json_to_event E t sn (JObj (event_frame 42 group_text_payload)) (Some ''42'') =
                     (set_sn sn (Some ''42'') (JInt 42),
                      Inr (case try_models (parse_obj E) (get_event_model t name) data of
                             Some ev \<Rightarrow> Some ev
                           | None \<Rightarrow>
                               Event_parse_obj E
                                 (fallback_envelope (event_frame 42 group_text_payload) data)))))"
    if sys: "EventTypes_sys E \<noteq> 9"
      and mem: "List.find (\<lambda>(name, x). x = 1) (EventTypes E) = Some (n1, x1)"
  proof -
    note n = group_text_normalize [OF sys mem]
    let ?data = "[(''type'', JInt 9), (''channel_type'', JStr ''GROUP''), (''target_id'', JStr ''g1''),
      (''msg_timestamp'', JInt 1000), (''author_id'', JStr ''2''),
      (''extra'', JObj [(''type'', JInt 1), (''content'', JStr ''hi'')]),
      (''content'', JStr ''hi''), (''msg_id'', JStr ''m1''), (''self_id'', JStr ''42''),
      (''group_id'', JStr ''g1''), (''time'', JInt 1000), (''user_id'', JStr ''2''),
      (''post_type'', JStr ''message''), (''sub_type'', JStr (lower n1)),
      (''message_type'', JStr ''group''),
      (''event'', JObj [(''type'', JInt 1), (''content'', JStr ''hi'')]),
      (''message_id'', JStr ''m1'')]"
    obtain name where en: "event_name E ?data = Inr name"
      by (simp add: event_name_def and_then_def dict_item_def dict_get_def Let_def)
    have s: "dict_item (event_frame 42 group_text_payload) ''s'' = Inr (JInt EVENT)"
      and v: "dict_item (event_frame 42 group_text_payload) ''sn'' = Inr (JInt 42)"
      and d: "dict_item (event_frame 42 group_text_payload) ''d'' = Inr (JObj group_text_payload)"
      by (simp_all add: event_frame_def dict_item_def)
    have other: "\<not> eq_hint (dict_get group_text_payload ''author_id'') (Some ''42'')"
      by (simp add: group_text_payload_def dict_get_def)
    have "json_to_event E t sn (JObj (event_frame 42 group_text_payload)) (Some ''42'') =
        (set_sn sn (Some ''42'') (JInt 42),
         decode_payload E t (event_frame 42 group_text_payload) (Some ''42''))"
      using s _ v by (rule event_result) simp
    then have res: "json_to_event E t sn (JObj (event_frame 42 group_text_payload)) (Some ''42'') =
        (set_sn sn (Some ''42'') (JInt 42),
         Inr (case try_models (parse_obj E) (get_event_model t name) ?data of
                Some ev \<Rightarrow> Some ev
              | None \<Rightarrow>
                  Event_parse_obj E (fallback_envelope (event_frame 42 group_text_payload) ?data)))"
      by (simp add: decode_payload_other [OF d other] parse_event_eq [OF n en]
          split: option.splits)
    show ?thesis
      unfolding n using en res by (simp add: dict_get_def)
  qed
  show ?thesis
    using rec read ex by blast
qed

theorem event_records_sn_then_decodes_witness:
  "get_sn (fst (json_to_event demo_module demo_models Map.empty
       (JObj (event_frame 42 group_text_payload)) (Some ''42''))) (Some ''42'') = JInt 42
   \<and> (case snd (json_to_event demo_module demo_models Map.empty
       (JObj (event_frame 42 group_text_payload)) (Some ''42'')) of
        Inr (Some (cls, payload)) \<Rightarrow>
          cls = ''MessageEvent''
        \<and> dict_get payload ''post_type'' = JStr ''message''
        \<and> dict_get payload ''message_type'' = JStr ''group''
        \<and> dict_get payload ''user_id'' = JStr ''2''
        \<and> dict_get payload ''message_id'' = JStr ''m1''
      | _ \<Rightarrow> False)"
proof -
  let ?data = "[(''type'', JInt 9), (''channel_type'', JStr ''GROUP''), (''target_id'', JStr ''g1''),
      (''msg_timestamp'', JInt 1000), (''author_id'', JStr ''2''),
      (''extra'', JObj [(''type'', JInt 1), (''content'', JStr ''hi'')]),
      (''content'', JStr ''hi''), (''msg_id'', JStr ''m1''), (''self_id'', JStr ''42''),
      (''group_id'', JStr ''g1''), (''time'', JInt 1000), (''user_id'', JStr ''2''),
      (''post_type'', JStr ''message''), (''sub_type'', JStr ''text''),
      (''message_type'', JStr ''group''),
      (''event'', JObj [(''type'', JInt 1), (''content'', JStr ''hi'')]),
      (''message_id'', JStr ''m1'')]"
  have s: "dict_item (event_frame 42 group_text_payload) ''s'' = Inr (JInt EVENT)"
    and v: "dict_item (event_frame 42 group_text_payload) ''sn'' = Inr (JInt 42)"
    by (simp_all add: event_frame_def dict_item_def)
  have e: "eq_int (JInt EVENT) EVENT"
    by simp
  have sys: "EventTypes_sys demo_module \<noteq> 9"
    and mem: "List.find (\<lambda>(name, x). x = 1) (EventTypes demo_module) = Some (''text'', 1)"
    by (simp_all add: demo_module_def)
  have n: "normalize demo_module group_text_payload (Some ''42'') = Inr ?data"
    by code_simp
  have en: "event_name demo_module ?data = Inr ''message.group.text''"
    by code_simp
  have tm: "try_models (parse_obj demo_module)
      (get_event_model demo_models ''message.group.text'') ?data = Some (''MessageEvent'', ?data)"
    by code_simp
  note T = event_records_sn_then_decodes [OF s e v, where E = demo_module and t = demo_models
      and sn = Map.empty and self_id = "Some ''42''" and ?n1.0 = "''text''" and ?x1.0 = 1]
  have c2: "get_sn (fst (json_to_event demo_module demo_models Map.empty
       (JObj (event_frame 42 group_text_payload)) (Some ''42''))) (Some ''42'') = JInt 42"
    using T [THEN conjunct2, THEN conjunct1] .
  have c3: "json_to_event demo_module demo_models Map.empty
       (JObj (event_frame 42 group_text_payload)) (Some ''42'') =
       (set_sn Map.empty (Some ''42'') (JInt 42), Inr (Some (''MessageEvent'', ?data)))"
    using T [THEN conjunct2, THEN conjunct2] sys mem
    by (simp add: n en tm)
  show ?thesis
    using c2 by (simp add: c3 dict_get_def)
qed

theorem spec_example_counterexample:
  "get_sn (fst (json_to_event demo_module demo_models Map.empty
       (JObj (event_frame 42 spec_example_payload)) (Some ''42''))) (Some ''42'') = JInt 42
   \<and> snd (json_to_event demo_module demo_models Map.empty
       (JObj (event_frame 42 spec_example_payload)) (Some ''42'')) = Inr None
   \<and> json_to_event demo_module demo_models Map.empty
       (JObj [(''s'', JInt EVENT), (''d'', JObj group_text_payload)]) (Some ''42'') =
       (Map.empty, Inl (KeyError ''sn''))"
proof -
  have "get_sn (fst (json_to_event demo_module demo_models Map.empty
       (JObj (event_frame 42 spec_example_payload)) (Some ''42''))) (Some ''42'') = JInt 42"
    by code_simp
  moreover have "snd (json_to_event demo_module demo_models Map.empty
       (JObj (event_frame 42 spec_example_payload)) (Some ''42'')) = Inr None"
    by code_simp
  moreover have "json_to_event demo_module demo_models Map.empty
       (JObj [(''s'', JInt EVENT), (''d'', JObj group_text_payload)]) (Some ''42'') =
       (Map.empty, Inl (KeyError ''sn''))"
    by (simp add: json_to_event_def dict_item_def on_signal_def signal_defs)
  ultimately show ?thesis
    by simp
qed

text \<open>
  Claim C8, as amended. For every EVENT envelope that carries \<^verbatim>\<open>sn\<close> and whose
  payload \<^verbatim>\<open>d\<close> is a dict, \<open>json_to_event\<close> raises nothing: it records \<^verbatim>\<open>sn\<close> and
  returns no event for the bot's own message, no event when the normalisation
  or the event name raises, the event of the first candidate model that
  accepts the normalised payload (a candidate that rejects it is passed over),
  and otherwise what the base class builds from the envelope, whose entry
  \<^verbatim>\<open>d\<close> is by then the normalised payload, or no event when the base class
  rejects it too. An EVENT envelope without \<^verbatim>\<open>sn\<close>, without \<^verbatim>\<open>d\<close>, or whose
  \<^verbatim>\<open>d\<close> is not a dict raises before the guarded block.
\<close>

theorem event_decoding_contained:
  assumes "dict_item jd ''s'' = Inr signal" and "eq_int signal EVENT"
    and "dict_item jd ''sn'' = Inr v" and "dict_item jd ''d'' = Inr (JObj d)"
  shows
    "json_to_event E t sn (JObj jd) self_id =
       (set_sn sn self_id v,
        Inr (if eq_hint (dict_get d ''author_id'') self_id then None
             else (case normalize E d self_id of
                     Inl e \<Rightarrow> None
                   | Inr data \<Rightarrow>
                       (case event_name E data of
                          Inl e \<Rightarrow> None
                        | Inr name \<Rightarrow>
                            (case try_models (parse_obj E) (get_event_model t name) data of
                               Some ev \<Rightarrow> Some ev
                             | None \<Rightarrow> Event_parse_obj E (fallback_envelope jd data))))))
   \<and> (try_models (parse_obj E) ms data' = Some ev \<longleftrightarrow>
        (\<exists>pre m post. ms = pre @ m # post \<and> (\<forall>x\<in>set pre. parse_obj E x data' = None)
           \<and> parse_obj E m data' = Some ev))
   \<and> (try_models (parse_obj E) ms data' = None \<longleftrightarrow>
        (\<forall>m\<in>set ms. parse_obj E m data' = None))"
proof -
  have rec: "json_to_event E t sn (JObj jd) self_id =
       (set_sn sn self_id v, decode_payload E t jd self_id)"
    using assms(1-3) by (rule event_result)
  have dec: "decode_payload E t jd self_id =
        Inr (if eq_hint (dict_get d ''author_id'') self_id then None
             else (case normalize E d self_id of
                     Inl e \<Rightarrow> None
                   | Inr data \<Rightarrow>
                       (case event_name E data of
                          Inl e \<Rightarrow> None
                        | Inr name \<Rightarrow>
                            (case try_models (parse_obj E) (get_event_model t name) data of
                               Some ev \<Rightarrow> Some ev
                             | None \<Rightarrow> Event_parse_obj E (fallback_envelope jd data)))))"
  proof (cases "eq_hint (dict_get d ''author_id'') self_id")
    case True
    then show ?thesis
      by (simp add: decode_payload_self [OF assms(4)])
  next
    case False
    show ?thesis
    proof (cases "normalize E d self_id")
      case (Inl e)
      then show ?thesis
        using False
        by (simp add: decode_payload_other [OF assms(4) False] parse_event_normalize_error)
    next
      case (Inr data)
      show ?thesis
      proof (cases "event_name E data")
        case (Inl e)
        then show ?thesis
          using False Inr
          by (simp add: decode_payload_other [OF assms(4) False] parse_event_name_error)
      next
        case name: (Inr name)
        show ?thesis
          using False Inr name
          by (simp add: decode_payload_other [OF assms(4) False] parse_event_eq
              split: option.splits)
      qed
    qed
  qed
  show ?thesis
    using rec dec try_models_Some_iff [of "parse_obj E" ms data' ev]
      try_models_None_iff [of "parse_obj E" ms data']
    by simp
qed

theorem event_decoding_contained_witness:
  "parse_obj demo_module ''ChannelMessageEvent''
     (case normalize demo_module group_text_payload (Some ''42'') of Inr data \<Rightarrow> data | Inl e \<Rightarrow> [])
     = None
   \<and> (case snd (json_to_event demo_module demo_models Map.empty
         (JObj (event_frame 1 group_text_payload)) (Some ''42'')) of
        Inr (Some (cls, payload)) \<Rightarrow> cls = ''MessageEvent''
      | _ \<Rightarrow> False)
   \<and> (case snd (json_to_event demo_module Map.empty Map.empty
         (JObj (event_frame 2 group_text_payload)) (Some ''42'')) of
        Inr (Some (cls, payload)) \<Rightarrow>
          cls = ''Event'' \<and> dict_get payload ''sn'' = JInt 2
          \<and> attr_get (dict_get payload ''d'') ''self_id'' = Inr (JStr ''42'')
      | _ \<Rightarrow> False)
   \<and> json_to_event demo_module demo_models Map.empty
         (JObj (event_frame 3 [(''author_id'', JStr ''2'')])) (Some ''42'') =
       (set_sn Map.empty (Some ''42'') (JInt 3), Inr None)"
proof -
  have e: "eq_int (JInt EVENT) EVENT"
    by simp
  have f: "dict_item (event_frame n d) ''s'' = Inr (JInt EVENT)"
    "dict_item (event_frame n d) ''sn'' = Inr (JInt n)"
    "dict_item (event_frame n d) ''d'' = Inr (JObj d)" for n d
    by (simp_all add: event_frame_def dict_item_def)
  note T1 = event_decoding_contained [OF f(1) [of 1 group_text_payload] e f(2) [of 1 group_text_payload] f(3) [of 1 group_text_payload],
      where E = demo_module and t = demo_models and self_id = "Some ''42''" and sn = Map.empty,
      THEN conjunct1]
  note T2 = event_decoding_contained [OF f(1) [of 2 group_text_payload] e f(2) [of 2 group_text_payload] f(3) [of 2 group_text_payload],
      where E = demo_module and t = Map.empty and self_id = "Some ''42''" and sn = Map.empty,
      THEN conjunct1]
  note T3 = event_decoding_contained [OF f(1) [of 3 "[(''author_id'', JStr ''2'')]"] e f(2) [of 3 "[(''author_id'', JStr ''2'')]"] f(3) [of 3 "[(''author_id'', JStr ''2'')]"],
      where E = demo_module and t = demo_models and self_id = "Some ''42''" and sn = Map.empty,
      THEN conjunct1]
  have r0: "parse_obj demo_module ''ChannelMessageEvent''
     (case normalize demo_module group_text_payload (Some ''42'') of Inr data \<Rightarrow> data | Inl e \<Rightarrow> [])
     = None"
    by code_simp
  have r1: "(case (if eq_hint (dict_get group_text_payload ''author_id'') (Some ''42'') then None
             else (case normalize demo_module group_text_payload (Some ''42'') of
                     Inl e \<Rightarrow> None
                   | Inr data \<Rightarrow>
                       (case event_name demo_module data of
                          Inl e \<Rightarrow> None
                        | Inr name \<Rightarrow>
                            (case try_models (parse_obj demo_module)
                                    (get_event_model demo_models name) data of
                               Some ev \<Rightarrow> Some ev
                             | None \<Rightarrow> Event_parse_obj demo_module
                                 (fallback_envelope (event_frame 1 group_text_payload) data))))) of
          Some (cls, payload) \<Rightarrow> cls = ''MessageEvent''
        | None \<Rightarrow> False)"
    by code_simp
  have r2: "(case (if eq_hint (dict_get group_text_payload ''author_id'') (Some ''42'') then None
             else (case normalize demo_module group_text_payload (Some ''42'') of
                     Inl e \<Rightarrow> None
                   | Inr data \<Rightarrow>
                       (case event_name demo_module data of
                          Inl e \<Rightarrow> None
                        | Inr name \<Rightarrow>
                            (case try_models (parse_obj demo_module)
                                    (get_event_model Map.empty name) data of
                               Some ev \<Rightarrow> Some ev
                             | None \<Rightarrow> Event_parse_obj demo_module
                                 (fallback_envelope (event_frame 2 group_text_payload) data))))) of
          Some (cls, payload) \<Rightarrow>
            cls = ''Event'' \<and> dict_get payload ''sn'' = JInt 2
            \<and> attr_get (dict_get payload ''d'') ''self_id'' = Inr (JStr ''42'')
        | None \<Rightarrow> False)"
    by code_simp
  have r3: "(if eq_hint (dict_get [(''author_id'', JStr ''2'')] ''author_id'') (Some ''42'') then None
             else (case normalize demo_module [(''author_id'', JStr ''2'')] (Some ''42'') of
                     Inl e \<Rightarrow> None
                   | Inr data \<Rightarrow>
                       (case event_name demo_module data of
                          Inl e \<Rightarrow> None
                        | Inr name \<Rightarrow>
                            (case try_models (parse_obj demo_module)
                                    (get_event_model demo_models name) data of
                               Some ev \<Rightarrow> Some ev
                             | None \<Rightarrow> Event_parse_obj demo_module
                                 (fallback_envelope (event_frame 3 [(''author_id'', JStr ''2'')]) data)))))
          = None"
    by code_simp
  have c1: "(case snd (json_to_event demo_module demo_models Map.empty
         (JObj (event_frame 1 group_text_payload)) (Some ''42'')) of
        Inr (Some (cls, payload)) \<Rightarrow> cls = ''MessageEvent''
      | _ \<Rightarrow> False)"
    unfolding T1 using r1 by (simp split: option.splits)
  have c2: "(case snd (json_to_event demo_module Map.empty Map.empty
         (JObj (event_frame 2 group_text_payload)) (Some ''42'')) of
        Inr (Some (cls, payload)) \<Rightarrow>
          cls = ''Event'' \<and> dict_get payload ''sn'' = JInt 2
          \<and> attr_get (dict_get payload ''d'') ''self_id'' = Inr (JStr ''42'')
      | _ \<Rightarrow> False)"
    unfolding T2 using r2 by (simp split: option.splits)
  have c3: "json_to_event demo_module demo_models Map.empty
         (JObj (event_frame 3 [(''author_id'', JStr ''2'')])) (Some ''42'') =
       (set_sn Map.empty (Some ''42'') (JInt 3), Inr None)"
    unfolding T3 r3 by simp
  show ?thesis
    using r0 c1 c2 c3 by blast
qed

theorem event_raises_counterexample:
  "json_to_event demo_module demo_models Map.empty
     (JObj [(''s'', JInt EVENT), (''d'', JObj person_text_payload)]) (Some ''42'') =
     (Map.empty, Inl (KeyError ''sn''))
   \<and> json_to_event demo_module demo_models Map.empty
     (JObj [(''s'', JInt EVENT), (''sn'', JInt 1)]) (Some ''42'') =
     (set_sn Map.empty (Some ''42'') (JInt 1), Inl (KeyError ''d''))
   \<and> json_to_event demo_module demo_models Map.empty
     (JObj [(''s'', JInt EVENT), (''sn'', JInt 1), (''d'', JNull)]) (Some ''42'') =
     (set_sn Map.empty (Some ''42'') (JInt 1), Inl AttributeError)"
  by (simp add: json_to_event_def dict_item_def on_signal_def signal_defs decode_payload_def
      and_then_def attr_get_def)

text \<open>
  Claim C2. A model registered at a dotted path is among the models that
  \<open>get_event_model\<close> returns for every path of which its path is a prefix,
  component by component, or to which it is equal. The list returned holds
  exactly the models stored at the prefixes of the queried path, the model of a
  longer prefix before the model of a shorter one. When no prefix of the queried
  path is registered the list is empty, and then \<open>json_to_event\<close> returns what
  the base class builds from the envelope \<^verbatim>\<open>json_data\<close>; the entry \<^verbatim>\<open>d\<close> of that
  envelope is the payload as normalised in place, its other entries are as
  received.
\<close>

theorem get_event_model_prefix_match:
  "(registered t p m \<and> path_prefix p q \<longrightarrow> m \<in> set (get_event_model t q))
   \<and> (\<exists>ps. get_event_model t q = map (\<lambda>pth. the (t pth)) ps
         \<and> set ps = {pth. prefix pth (path_from_key (''.'' @ q)) \<and> t pth \<noteq> None}
         \<and> sorted_wrt (\<lambda>a b. length b < length a) ps)
   \<and> (keys_dotted t \<and> (\<forall>p m. path_prefix p q \<longrightarrow> \<not> registered t p m) \<longrightarrow>
        get_event_model t q = [])
   \<and> (dict_item jd ''s'' = Inr signal \<and> eq_int signal EVENT \<and> dict_item jd ''sn'' = Inr v
        \<and> dict_item jd ''d'' = Inr (JObj d) \<and> \<not> eq_hint (dict_get d ''author_id'') self_id
        \<and> normalize E d self_id = Inr data \<and> event_name E data = Inr name
        \<and> get_event_model t name = [] \<longrightarrow>
        json_to_event E t sn (JObj jd) self_id =
          (set_sn sn self_id v, Inr (Event_parse_obj E (fallback_envelope jd data)))
        \<and> dict_get (fallback_envelope jd data) ''d'' = JObj data
        \<and> (\<forall>k. k \<noteq> ''d'' \<longrightarrow> map_of (fallback_envelope jd data) k = map_of jd k))"
proof -
  have a: "registered t p m \<and> path_prefix p q \<longrightarrow> m \<in> set (get_event_model t q)"
    using registered_prefix_returned [of t p m q] by blast
  let ?ps = "rev (filter (\<lambda>pth. t pth \<noteq> None) (prefixes (path_from_key (''.'' @ q))))"
  have "get_event_model t q = map (\<lambda>pth. the (t pth)) ?ps
         \<and> set ?ps = {pth. prefix pth (path_from_key (''.'' @ q)) \<and> t pth \<noteq> None}
         \<and> sorted_wrt (\<lambda>a b. length b < length a) ?ps"
    using get_event_model_paths [of t q] most_specific_first [of t q] by auto
  then have b: "\<exists>ps. get_event_model t q = map (\<lambda>pth. the (t pth)) ps
         \<and> set ps = {pth. prefix pth (path_from_key (''.'' @ q)) \<and> t pth \<noteq> None}
         \<and> sorted_wrt (\<lambda>a b. length b < length a) ps"
    by blast
  have c: "keys_dotted t \<and> (\<forall>p m. path_prefix p q \<longrightarrow> \<not> registered t p m) \<longrightarrow>
        get_event_model t q = []"
    using no_registered_prefix [of t q] by blast
  have d: "json_to_event E t sn (JObj jd) self_id =
          (set_sn sn self_id v, Inr (Event_parse_obj E (fallback_envelope jd data)))"
    if "dict_item jd ''s'' = Inr signal" "eq_int signal EVENT" "dict_item jd ''sn'' = Inr v"
      "dict_item jd ''d'' = Inr (JObj d)" "\<not> eq_hint (dict_get d ''author_id'') self_id"
      "normalize E d self_id = Inr data" "event_name E data = Inr name"
      "get_event_model t name = []"
    using that
    by (simp add: event_result decode_payload_other parse_event_eq split: option.splits)
  show ?thesis
    using a b c d fallback_envelope_entries(1) [of jd data]
      fallback_envelope_entries(2) [of _ jd data]
    by blast
qed

theorem get_event_model_prefix_match_witness:
  "registered demo_models ''message'' ''MessageEvent''
   \<and> path_prefix ''message'' ''message.group.text''
   \<and> ''MessageEvent'' \<in> set (get_event_model demo_models ''message.group.text'')
   \<and> get_event_model demo_models ''message.group.text'' =
       [''ChannelMessageEvent'', ''MessageEvent'']
   \<and> get_event_model notice_only_models ''message.group.text'' = []
   \<and> (case snd (json_to_event demo_module notice_only_models Map.empty
         (JObj (event_frame 2 group_text_payload)) (Some ''42'')) of
        Inr (Some (cls, payload)) \<Rightarrow> cls = ''Event'' \<and> dict_get payload ''sn'' = JInt 2
      | _ \<Rightarrow> False)"
proof -
  let ?data = "[(''type'', JInt 9), (''channel_type'', JStr ''GROUP''), (''target_id'', JStr ''g1''),
      (''msg_timestamp'', JInt 1000), (''author_id'', JStr ''2''),
      (''extra'', JObj [(''type'', JInt 1), (''content'', JStr ''hi'')]),
      (''content'', JStr ''hi''), (''msg_id'', JStr ''m1''), (''self_id'', JStr ''42''),
      (''group_id'', JStr ''g1''), (''time'', JInt 1000), (''user_id'', JStr ''2''),
      (''post_type'', JStr ''message''), (''sub_type'', JStr ''text''),
      (''message_type'', JStr ''group''),
      (''event'', JObj [(''type'', JInt 1), (''content'', JStr ''hi'')]),
      (''message_id'', JStr ''m1'')]"
  have reg: "registered demo_models ''message'' ''MessageEvent''"
    by code_simp
  have pp: "path_prefix ''message'' ''message.group.text''"
    by code_simp
  have mem: "''MessageEvent'' \<in> set (get_event_model demo_models ''message.group.text'')"
    using get_event_model_prefix_match [where t = demo_models and p = "''message''"
        and m = "''MessageEvent''" and q = "''message.group.text''", THEN conjunct1] reg pp
    by blast
  have order: "get_event_model demo_models ''message.group.text'' =
       [''ChannelMessageEvent'', ''MessageEvent'']"
    by code_simp
  have kd: "keys_dotted notice_only_models"
    by (simp add: notice_only_models_def keys_dotted_init)
  have none: "\<forall>p m. path_prefix p ''message.group.text'' \<longrightarrow> \<not> registered notice_only_models p m"
    by (auto simp: registered_def path_prefix_def notice_only_models_def init_event_models_def
        trie_set_def path_from_dotted split: if_splits)
  have empty: "get_event_model notice_only_models ''message.group.text'' = []"
    using get_event_model_prefix_match [where t = notice_only_models
        and q = "''message.group.text''", THEN conjunct2, THEN conjunct2, THEN conjunct1] kd none
    by blast
  have s: "dict_item (event_frame 2 group_text_payload) ''s'' = Inr (JInt EVENT)"
    and v: "dict_item (event_frame 2 group_text_payload) ''sn'' = Inr (JInt 2)"
    and d: "dict_item (event_frame 2 group_text_payload) ''d'' = Inr (JObj group_text_payload)"
    by (simp_all add: event_frame_def dict_item_def)
  have e: "eq_int (JInt EVENT) EVENT"
    by simp
  have other: "\<not> eq_hint (dict_get group_text_payload ''author_id'') (Some ''42'')"
    by (simp add: group_text_payload_def dict_get_def)
  have n: "normalize demo_module group_text_payload (Some ''42'') = Inr ?data"
    by code_simp
  have en: "event_name demo_module ?data = Inr ''message.group.text''"
    by code_simp
  have fb: "json_to_event demo_module notice_only_models Map.empty
         (JObj (event_frame 2 group_text_payload)) (Some ''42'') =
      (set_sn Map.empty (Some ''42'') (JInt 2),
       Inr (Event_parse_obj demo_module
              (fallback_envelope (event_frame 2 group_text_payload) ?data)))"
    using get_event_model_prefix_match [where t = notice_only_models
        and jd = "event_frame 2 group_text_payload" and signal = "JInt EVENT" and v = "JInt 2"
        and d = group_text_payload and self_id = "Some ''42''" and E = demo_module
        and data = ?data and name = "''message.group.text''" and sn = Map.empty,
        THEN conjunct2, THEN conjunct2, THEN conjunct2]
      s e v d other n en empty
    by blast
  have ev: "(case snd (json_to_event demo_module notice_only_models Map.empty
         (JObj (event_frame 2 group_text_payload)) (Some ''42'')) of
        Inr (Some (cls, payload)) \<Rightarrow> cls = ''Event'' \<and> dict_get payload ''sn'' = JInt 2
      | _ \<Rightarrow> False)"
    unfolding fb
    by (simp add: demo_module_def requiring_def fallback_envelope_def event_frame_def dict_get_def)
  show ?thesis
    using reg pp mem order empty ev by blast
qed

text \<open>
  Claim C9. In every turn of the heartbeat loop in which the registry holds an
  open socket for the bound identity, the frame passed to \<^verbatim>\<open>send\<close> is
  \<^verbatim>\<open>{"s": 2, "sn": n}\<close> with \<open>n\<close> the sequence store's current value for the
  identity. In the first turn in which the registry does not hold the identity
  or holds a closed socket, the task ends: it has sent the frames of the turns
  before, sends nothing more and raises nothing.
\<close>

theorem heartbeat_frames:
  "ping sn self_id = JObj [(''s'', JInt 2), (''sn'', get_sn sn (Some self_id))]
   \<and> (list_all (\<lambda>w. reports_open w self_id \<and> send_raises w = None) ws \<longrightarrow>
        start_heartbeat self_id ws = (map (\<lambda>w. ping (store w) self_id) ws, Running)
      \<and> (\<not> reports_open w self_id \<longrightarrow>
            start_heartbeat self_id (ws @ w # rest) =
              (map (\<lambda>w. ping (store w) self_id) ws, Exited))
      \<and> (reports_open w self_id \<and> send_raises w = Some e \<longrightarrow>
            start_heartbeat self_id (ws @ w # rest) =
              (map (\<lambda>w. ping (store w) self_id) ws @ [ping (store w) self_id], Raised e)))
   \<and> (reports_open w self_id \<longleftrightarrow>
        (\<exists>ws'. registry w self_id = Some ws' \<and> \<not> closed ws'))"
proof -
  have running: "start_heartbeat self_id ws = (map (\<lambda>w. ping (store w) self_id) ws, Running)"
    if "list_all (\<lambda>w. reports_open w self_id \<and> send_raises w = None) ws"
    using start_heartbeat_open [OF that, of "[]"] by simp
  have exited: "start_heartbeat self_id (ws @ w # rest) =
      (map (\<lambda>w. ping (store w) self_id) ws, Exited)"
    if "list_all (\<lambda>w. reports_open w self_id \<and> send_raises w = None) ws"
      and "\<not> reports_open w self_id"
    using start_heartbeat_open [OF that(1), of "w # rest"] start_heartbeat_closed [OF that(2)]
    by simp
  have raised: "start_heartbeat self_id (ws @ w # rest) =
      (map (\<lambda>w. ping (store w) self_id) ws @ [ping (store w) self_id], Raised e)"
    if "list_all (\<lambda>w. reports_open w self_id \<and> send_raises w = None) ws"
      and "reports_open w self_id" and "send_raises w = Some e"
    using start_heartbeat_open [OF that(1), of "w # rest"] start_heartbeat_raises [OF that(2,3)]
    by simp
  have opened: "reports_open w self_id \<longleftrightarrow>
      (\<exists>ws'. registry w self_id = Some ws' \<and> \<not> closed ws')"
    by (simp add: reports_open_def split: option.splits)
  show ?thesis
    using running exited raised opened by (simp add: ping_def)
qed

theorem heartbeat_frames_witness:
  "start_heartbeat ''42'' [beat False 5, beat False 9, beat True 9, beat False 11] =
     ([JObj [(''s'', JInt 2), (''sn'', JInt 5)], JObj [(''s'', JInt 2), (''sn'', JInt 9)]], Exited)
   \<and> start_heartbeat ''42'' [beat False 5, unbound_beat 0, beat False 11] =
     ([JObj [(''s'', JInt 2), (''sn'', JInt 5)]], Exited)
   \<and> start_heartbeat ''42'' [beat False 5, beat False 9] =
     ([JObj [(''s'', JInt 2), (''sn'', JInt 5)], JObj [(''s'', JInt 2), (''sn'', JInt 9)]], Running)"
proof -
  have o: "reports_open (beat False n) ''42'' \<and> send_raises (beat False n) = None" for n
    by (simp add: beat_def reports_open_def)
  have c: "\<not> reports_open (beat True n) ''42''" "\<not> reports_open (unbound_beat n) ''42''" for n
    by (simp_all add: beat_def unbound_beat_def reports_open_def)
  have p: "ping (store (beat False n)) ''42'' = JObj [(''s'', JInt 2), (''sn'', JInt n)]" for n
    by (simp add: beat_def ping_def get_sn_def)
  have a: "start_heartbeat ''42'' ([beat False 5, beat False 9] @ beat True 9 # [beat False 11]) =
      (map (\<lambda>w. ping (store w) ''42'') [beat False 5, beat False 9], Exited)"
    using heartbeat_frames [where ws = "[beat False 5, beat False 9]" and self_id = "''42''"
        and w = "beat True 9" and rest = "[beat False 11]", THEN conjunct2, THEN conjunct1] o c
    by simp
  have b: "start_heartbeat ''42'' ([beat False 5] @ unbound_beat 0 # [beat False 11]) =
      (map (\<lambda>w. ping (store w) ''42'') [beat False 5], Exited)"
    using heartbeat_frames [where ws = "[beat False 5]" and self_id = "''42''"
        and w = "unbound_beat 0" and rest = "[beat False 11]", THEN conjunct2, THEN conjunct1] o c
    by simp
  have r: "start_heartbeat ''42'' [beat False 5, beat False 9] =
      (map (\<lambda>w. ping (store w) ''42'') [beat False 5, beat False 9], Running)"
    using heartbeat_frames [where ws = "[beat False 5, beat False 9]" and self_id = "''42''",
        THEN conjunct2, THEN conjunct1] o
    by simp
  show ?thesis
    using a b r by (simp add: p)
qed

text \<open>
  Claim C6. When the request for a new gateway inside the \<^verbatim>\<open>finally\<close> block
  raises, the block is left before the sequence number is reset: the store
  still holds the old number for the bound identity, the registry still holds
  the closed socket and the bot stays bound, so the frames of the next
  connection are decoded with the old identity and the old number.
\<close>

theorem teardown_gateway_failure:
  "snd (teardown (Inl NetworkError) bound_session) = Some NetworkError
   \<and> bot (fst (teardown (Inl NetworkError) bound_session)) = Some ''42''
   \<and> get_sn (sn_store (fst (teardown (Inl NetworkError) bound_session))) (Some ''42'') = JInt 42
   \<and> connections (fst (teardown (Inl NetworkError) bound_session)) ''42'' = Some (WebSocket True)"
  by (simp add: teardown_def bound_session_def get_sn_def)

text \<open>
  The other outcome of the teardown. When the request for a new gateway
  succeeds, the \<^verbatim>\<open>finally\<close>
  block leaves the sequence number of the bound identity at 0, removes the
  identity from the registry and unbinds the bot; and a frame decoded while no
  bot is bound (identity hint \<^verbatim>\<open>None\<close>) does not change the entry of that
  identity, so it still reads 0 when the next bot is bound.
\<close>

theorem teardown_resets_sequence:
  assumes "bot s = Some self_id"
  shows "get_sn (sn_store (fst (teardown (Inr url') s))) (Some self_id) = JInt 0
    \<and> bot (fst (teardown (Inr url') s)) = None
    \<and> connections (fst (teardown (Inr url') s)) self_id = None
    \<and> url (fst (teardown (Inr url') s)) = url'
    \<and> snd (teardown (Inr url') s) = None
    \<and> get_sn (fst (json_to_event E t (sn_store (fst (teardown (Inr url') s))) json_data None))
         (Some self_id) = JInt 0"
proof -
  have keep: "fst (json_to_event E t sn json_data None) (Some self_id) = sn (Some self_id)" for sn
    by (auto simp: json_to_event_def on_signal_def set_sn_def
        split: json.splits sum.splits prod.splits flow.splits option.splits if_splits)
  show ?thesis
    using assms by (simp add: teardown_def get_sn_def set_sn_def keep)
qed

theorem teardown_resets_sequence_witness:
  "get_sn (sn_store (fst (teardown (Inr ''ws://new'') bound_session))) (Some ''42'') = JInt 0
   \<and> bot (fst (teardown (Inr ''ws://new'') bound_session)) = None
   \<and> get_sn (fst (json_to_event demo_module demo_models
         (sn_store (fst (teardown (Inr ''ws://new'') bound_session)))
         (JObj (event_frame 7 group_text_payload)) None)) (Some ''42'') = JInt 0"
  using teardown_resets_sequence [where s = bound_session and self_id = "''42''"
      and url' = "''ws://new''" and E = demo_module and t = demo_models
      and json_data = "JObj (event_frame 7 group_text_payload)"]
  by (simp add: bound_session_def)

end
